theory Spec2Isabelle
  imports Main "HOL-Library.Word"
begin

section \<open>Audio level estimator\<close>

text \<open>
  The C source is \<^verbatim>\<open>res/res_speech_gdfe.c\<close>. A \<^verbatim>\<open>short\<close> is a 16-bit word read as
  two's complement by \<open>sint\<close>. A pointer to samples is modelled by the list of the
  \<^verbatim>\<open>short\<close>s that are readable from it: reading past the end of that list is the
  out-of-bounds read of the C code, and is a fault of the model.
\<close>

type_synonym short = "16 word"

datatype fault = DivisionByZero | OutOfBoundsRead

text \<open>
  The loop of \<^verbatim>\<open>calculate_audio_level\<close> (lines 352-355):
  \<^verbatim>\<open>for (i = 0; i < len; i++) { short sample = slin[i]; sum += abs(sample); }\<close>
  The first argument is what is left to read at \<^verbatim>\<open>slin + i\<close>, the second is
  \<^verbatim>\<open>len - i\<close>, the third is the running \<^verbatim>\<open>sum\<close>. The sample is promoted to \<^verbatim>\<open>int\<close> before
  \<^verbatim>\<open>abs\<close>, so \<^verbatim>\<open>abs(-32768)\<close> is 32768. The sum is a \<^verbatim>\<open>long long\<close>; lemma
  \<open>sum_abs_loop_bound\<close> below shows that it stays far below \<open>2 ^ 63\<close>.
\<close>

fun sum_abs_loop :: "short list \<Rightarrow> nat \<Rightarrow> int \<Rightarrow> fault + int" where
  "sum_abs_loop slin 0 acc = Inr acc"
| "sum_abs_loop [] (Suc n) acc = Inl OutOfBoundsRead"
| "sum_abs_loop (sample # rest) (Suc n) acc = sum_abs_loop rest n (acc + \<bar>sint sample\<bar>)"

text \<open>
  \<^verbatim>\<open>static int calculate_audio_level(const short *slin, int len)\<close> (lines 348-360).
  For a negative \<^verbatim>\<open>len\<close> the loop does not run and the result is \<^verbatim>\<open>0 / len = 0\<close>.
  For a positive \<^verbatim>\<open>len\<close> both operands of the division are non-negative, where the
  truncating division of C agrees with \<open>div\<close>. There is no test of \<^verbatim>\<open>len\<close> before
  \<^verbatim>\<open>return sum / len\<close>.
\<close>

definition calculate_audio_level :: "short list \<Rightarrow> int \<Rightarrow> fault + int" where
  "calculate_audio_level slin len =
     (case sum_abs_loop slin (nat len) 0 of
        Inl f \<Rightarrow> Inl f
      | Inr acc \<Rightarrow> if len = 0 then Inl DivisionByZero else Inr (acc div len))"

text \<open>The mean absolute magnitude of a sample sequence, rounded down, as the
  specification words it.\<close>

definition mean_abs_magnitude :: "short list \<Rightarrow> int" where
  "mean_abs_magnitude samples = (\<Sum>s\<leftarrow>samples. \<bar>sint s\<bar>) div int (length samples)"


section \<open>Data model\<close>

text \<open>
  \<^verbatim>\<open>enum VAD_STATE\<close> (lines 73-77) and \<^verbatim>\<open>enum gdf_call_log_type\<close> (lines 145-149).
\<close>

datatype VAD_STATE = VAD_STATE_START | VAD_STATE_SPEAK | VAD_STATE_SILENT

datatype gdf_call_log_type =
  CALL_LOG_TYPE_SESSION | CALL_LOG_TYPE_ENDPOINTER | CALL_LOG_TYPE_DIALOGFLOW

text \<open>
  A \<^verbatim>\<open>FILE *\<close> is \<open>None\<close> for \<^verbatim>\<open>NULL\<close> and \<open>Some h\<close> for an open stream \<open>h\<close>.
\<close>

type_synonym FILE = nat

text \<open>
  \<^verbatim>\<open>struct gdf_pvt\<close> (lines 79-116), without the mutex, the backend session pointer and
  the string fields that the functions below do not touch. The three
  \<^verbatim>\<open>..._already_attempted\<close> fields are C \<^verbatim>\<open>int\<close>s that only ever hold 0 or 1. The other
  \<^verbatim>\<open>int\<close> fields have the type of the integers here. The three tunables only ever
  receive values of the range of \<^verbatim>\<open>int\<close> (from \<^verbatim>\<open>sscanf_d\<close> below), and the counters
  would need weeks of audio in one state to leave that range.
\<close>

record gdf_pvt =
  vad_state :: VAD_STATE
  vad_state_duration :: int
  vad_change_duration :: int
  voice_threshold :: int
  voice_minimum_duration :: int
  silence_minimum_duration :: int
  call_log_open_already_attempted :: bool
  call_log_file_handle :: "FILE option"
  utterance_counter :: int
  utterance_preendpointer_recording_open_already_attempted :: bool
  utterance_preendpointer_recording_file_handle :: "FILE option"
  utterance_postendpointer_recording_open_already_attempted :: bool
  utterance_postendpointer_recording_file_handle :: "FILE option"
  logical_agent_name :: string
  project_id :: string
  session_id :: string
  event :: string
  language :: string
  call_log_path :: string
  call_log_file_basename :: string
  call_logging_application_name :: string
  call_logging_context :: string

text \<open>
  \<^verbatim>\<open>struct gdf_config\<close> (lines 127-143), without the agent table.
  The three \<^verbatim>\<open>enable_...\<close> fields hold 1 or the result of \<^verbatim>\<open>ast_true\<close>, and are only
  tested for being non-zero.
\<close>

record gdf_config =
  vad_voice_threshold :: int
  vad_voice_minimum_duration :: int
  vad_silence_minimum_duration :: int
  enable_call_logs :: bool
  enable_preendpointer_recordings :: bool
  enable_postendpointer_recordings :: bool
  service_key :: string
  endpoint :: string
  call_log_location :: string

text \<open>
  The states and flags of the platform's \<^verbatim>\<open>struct ast_speech\<close>, and the states a backend
  exchange reports. Of the latter the source names \<^verbatim>\<open>DF_STATE_FINISHED\<close> and
  \<^verbatim>\<open>DF_STATE_ERROR\<close> only.
\<close>

datatype ast_speech_states =
  AST_SPEECH_STATE_NOT_READY | AST_SPEECH_STATE_READY | AST_SPEECH_STATE_WAIT | AST_SPEECH_STATE_DONE

datatype ast_speech_flags = AST_SPEECH_QUIET | AST_SPEECH_SPOKE | AST_SPEECH_HAVE_RESULTS

datatype dialogflow_session_state =
  DF_STATE_READY | DF_STATE_STARTED | DF_STATE_FINISHED | DF_STATE_ERROR

subsection \<open>The outside world\<close>

text \<open>
  A file name as \<^verbatim>\<open>build_log_related_filename_to_thread_local_str\<close> (lines 705-719)
  composes it: the call log path, the base name, \<^verbatim>\<open>_type\<close>, \<^verbatim>\<open>_counter\<close> when
  asked for, and \<^verbatim>\<open>.extension\<close>. The parts are kept apart instead of printed into one
  string.
\<close>

datatype log_related_filename =
  Log_related_filename string string string "int option" string

text \<open>A value of a call log record: a string, an \<^verbatim>\<open>int\<close> printed with \<^verbatim>\<open>%d\<close>, or a
  file name.\<close>

datatype log_value = Text string | Decimal int | Filename log_related_filename

text \<open>
  What the functions do to the outside world, in the order they do it: calls of
  \<^verbatim>\<open>fopen\<close> (with the stream it returned), \<^verbatim>\<open>fclose\<close>, \<^verbatim>\<open>fwrite\<close>, the
  \<^verbatim>\<open>fprintf\<close> of one record to the call log (without its time stamp),
  \<^verbatim>\<open>ast_mkdir\<close>, and the calls of the recognition backend. Diagnostic messages
  (\<^verbatim>\<open>ast_log\<close>) are left out.
\<close>

datatype effect =
    Fopen log_related_filename "FILE option"
  | Fclose FILE
  | Fwrite "FILE option" "8 word list"
  | Fprintf_call_log "FILE option" gdf_call_log_type string "(string \<times> log_value) list"
  | Ast_mkdir string
  | Df_start_recognition string
  | Df_write_audio "8 word list"
  | Df_stop_recognition
  | Df_recognize_event string string
  | Df_set_session_id string
  | Df_set_project_id string
  | Df_create_session
  | Df_set_auth_key string
  | Df_set_endpoint string

text \<open>
  One speech session: \<open>speech_state\<close> and \<open>speech_flags\<close> are the fields \<^verbatim>\<open>state\<close> and
  \<^verbatim>\<open>flags\<close> of \<^verbatim>\<open>struct ast_speech\<close>, \<open>pvt\<close> is what its \<^verbatim>\<open>data\<close> points to,
  \<open>next_FILE\<close> is the next stream \<^verbatim>\<open>fopen\<close> hands out and \<open>effects\<close> is what has been
  done to the outside world so far. The mutex is not modelled: the functions run one
  after the other.
\<close>

record session =
  speech_state :: ast_speech_states
  speech_flags :: "ast_speech_flags set"
  pvt :: gdf_pvt
  next_FILE :: FILE
  effects :: "effect list"

text \<open>
  What one call of an engine function gets back from its surroundings: the configuration
  snapshot \<^verbatim>\<open>gdf_get_config()\<close> returns (\<open>None\<close> for \<^verbatim>\<open>NULL\<close>), whether an
  \<^verbatim>\<open>fopen(path, "w")\<close> succeeds, the results of the backend calls, the platform's
  \<^verbatim>\<open>AST_LIN2MU\<close> table and variable substitution, and the base name that
  \<^verbatim>\<open>calculate_log_file_basename\<close> (lines 690-698) prints from the clock and the session
  id.
\<close>

record env =
  gdf_get_config :: "gdf_config option"
  fopen_succeeds :: "log_related_filename \<Rightarrow> bool"
  df_start_recognition_rc :: int
  df_write_audio_rc :: dialogflow_session_state
  df_get_response_count_rc :: int
  df_recognize_event_rc :: int
  AST_LIN2MU :: "short \<Rightarrow> 8 word"
  ast_str_substitute_variables :: "string \<Rightarrow> string \<Rightarrow> string"
  log_file_basename_now :: "string \<Rightarrow> string"

definition emit :: "effect \<Rightarrow> session \<Rightarrow> session" where
  "emit x s = s\<lparr>effects := effects s @ [x]\<rparr>"

definition fopen_w :: "env \<Rightarrow> log_related_filename \<Rightarrow> session \<Rightarrow> FILE option \<times> session" where
  "fopen_w e path s =
     (if fopen_succeeds e path
      then (Some (next_FILE s),
            emit (Fopen path (Some (next_FILE s))) (s\<lparr>next_FILE := Suc (next_FILE s)\<rparr>))
      else (None, emit (Fopen path None) s))"

text \<open>
  \<^verbatim>\<open>ast_speech_change_state\<close> is the platform's: it stores the state, and for
  \<^verbatim>\<open>AST_SPEECH_STATE_WAIT\<close> it also sets the flag \<^verbatim>\<open>AST_SPEECH_SPOKE\<close>.
\<close>

definition ast_speech_change_state :: "ast_speech_states \<Rightarrow> session \<Rightarrow> session" where
  "ast_speech_change_state st s =
     (case st of
        AST_SPEECH_STATE_WAIT \<Rightarrow>
          s\<lparr>speech_state := st, speech_flags := insert AST_SPEECH_SPOKE (speech_flags s)\<rparr>
      | _ \<Rightarrow> s\<lparr>speech_state := st\<rparr>)"

section \<open>Call log\<close>

text \<open>\<^verbatim>\<open>call_log_enabled_for_pvt\<close> (lines 1437-1454).\<close>

definition call_log_enabled_for_pvt :: "env \<Rightarrow> gdf_pvt \<Rightarrow> bool" where
  "call_log_enabled_for_pvt e p =
     (case gdf_get_config e of
        None \<Rightarrow> False
      | Some config \<Rightarrow>
          if enable_call_logs config then call_log_file_handle p \<noteq> None else False)"

text \<open>
  \<^verbatim>\<open>gdf_log_call_event\<close> (lines 1460-1522): nothing is written unless the call log is
  enabled and open.
\<close>

definition gdf_log_call_event ::
  "env \<Rightarrow> gdf_call_log_type \<Rightarrow> string \<Rightarrow> (string \<times> log_value) list \<Rightarrow> session \<Rightarrow> session" where
  "gdf_log_call_event e ty ev log_data s =
     (if \<not> call_log_enabled_for_pvt e (pvt s) then s
      else emit (Fprintf_call_log (call_log_file_handle (pvt s)) ty ev log_data) s)"

text \<open>The macro \<^verbatim>\<open>gdf_log_call_event_only\<close> (line 154).\<close>

definition gdf_log_call_event_only ::
  "env \<Rightarrow> gdf_call_log_type \<Rightarrow> string \<Rightarrow> session \<Rightarrow> session" where
  "gdf_log_call_event_only e ty ev s = gdf_log_call_event e ty ev [] s"

text \<open>\<^verbatim>\<open>write_end_of_recognition_call_event\<close> (lines 362-365).\<close>

definition write_end_of_recognition_call_event :: "env \<Rightarrow> session \<Rightarrow> session" where
  "write_end_of_recognition_call_event e s =
     gdf_log_call_event_only e CALL_LOG_TYPE_SESSION ''end'' s"

definition build_log_related_filename ::
  "gdf_pvt \<Rightarrow> bool \<Rightarrow> string \<Rightarrow> string \<Rightarrow> log_related_filename" where
  "build_log_related_filename p include_utterance_counter ty extension =
     Log_related_filename (call_log_path p) (call_log_file_basename p) ty
       (if include_utterance_counter then Some (utterance_counter p) else None) extension"

section \<open>Recording\<close>

text \<open>\<^verbatim>\<open>are_currently_recording_pre_endpointed_audio\<close> (lines 367-374).\<close>

definition are_currently_recording_pre_endpointed_audio :: "gdf_pvt \<Rightarrow> bool" where
  "are_currently_recording_pre_endpointed_audio p =
     (utterance_preendpointer_recording_file_handle p \<noteq> None)"

text \<open>
  \<^verbatim>\<open>open_preendpointed_recording_file\<close> (lines 376-400) and
  \<^verbatim>\<open>open_postendpointed_recording_file\<close> (lines 402-426): the flag is set, then the
  file is opened. The result is 0 on success and -1 otherwise.
\<close>

definition open_preendpointed_recording_file :: "env \<Rightarrow> session \<Rightarrow> int \<times> session" where
  "open_preendpointed_recording_file e s =
     (let path = build_log_related_filename (pvt s) True ''pre'' ''ul'';
          s1 = s\<lparr>pvt := (pvt s)\<lparr>utterance_preendpointer_recording_open_already_attempted := True\<rparr>\<rparr>;
          (record_file, s2) = fopen_w e path s1
      in case record_file of
           Some h \<Rightarrow>
             (let s3 = gdf_log_call_event e CALL_LOG_TYPE_ENDPOINTER ''pre_recording_start''
                         [(''filename'', Filename path)] s2
              in (0, s3\<lparr>pvt := (pvt s3)\<lparr>utterance_preendpointer_recording_file_handle := Some h\<rparr>\<rparr>))
         | None \<Rightarrow> (- 1, s2))"

definition open_postendpointed_recording_file :: "env \<Rightarrow> session \<Rightarrow> int \<times> session" where
  "open_postendpointed_recording_file e s =
     (let path = build_log_related_filename (pvt s) True ''post'' ''ul'';
          s1 = s\<lparr>pvt := (pvt s)\<lparr>utterance_postendpointer_recording_open_already_attempted := True\<rparr>\<rparr>;
          (record_file, s2) = fopen_w e path s1
      in case record_file of
           Some h \<Rightarrow>
             (let s3 = gdf_log_call_event e CALL_LOG_TYPE_ENDPOINTER ''post_recording_start''
                         [(''filename'', Filename path)] s2
              in (0, s3\<lparr>pvt := (pvt s3)\<lparr>utterance_postendpointer_recording_file_handle := Some h\<rparr>\<rparr>))
         | None \<Rightarrow> (- 1, s2))"

text \<open>
  The two halves of \<^verbatim>\<open>maybe_record_audio\<close>: lines 457-470 for the recording before the
  endpointer and lines 472-485 for the one after it. The arguments
  \<open>currently_recording\<close> and \<open>already_attempted\<close> are the local variables of the C
  function.
\<close>

definition record_preendpointed_audio ::
  "env \<Rightarrow> 8 word list \<Rightarrow> bool \<Rightarrow> bool \<Rightarrow> bool \<Rightarrow> session \<Rightarrow> session" where
  "record_preendpointed_audio e mulaw enable currently_recording already_attempted s =
     (if enable then
        (let (recording, s1) =
               (if \<not> currently_recording \<and> \<not> already_attempted
                then (case open_preendpointed_recording_file e s of
                        (rc, s') \<Rightarrow> (if rc = 0 then True else currently_recording, s'))
                else (currently_recording, s))
         in if recording
            then emit (Fwrite (utterance_preendpointer_recording_file_handle (pvt s1)) mulaw) s1
            else s1)
      else s)"

definition record_postendpointed_audio ::
  "env \<Rightarrow> 8 word list \<Rightarrow> VAD_STATE \<Rightarrow> bool \<Rightarrow> bool \<Rightarrow> bool \<Rightarrow> session \<Rightarrow> session" where
  "record_postendpointed_audio e mulaw current_vad_state enable currently_recording
       already_attempted s =
     (if enable \<and> current_vad_state = VAD_STATE_SPEAK then
        (let (recording, s1) =
               (if \<not> currently_recording \<and> \<not> already_attempted
                then (case open_postendpointed_recording_file e s of
                        (rc, s') \<Rightarrow> (if rc = 0 then True else currently_recording, s'))
                else (currently_recording, s))
         in if recording
            then emit (Fwrite (utterance_postendpointer_recording_file_handle (pvt s1)) mulaw) s1
            else s1)
      else s)"

text \<open>
  \<^verbatim>\<open>maybe_record_audio\<close> (lines 428-486). The four local variables start at 0 and are
  read from the session only when a recording is enabled and the call log path is not
  empty (lines 444-455).
\<close>

definition maybe_record_audio :: "env \<Rightarrow> 8 word list \<Rightarrow> VAD_STATE \<Rightarrow> session \<Rightarrow> session" where
  "maybe_record_audio e mulaw current_vad_state s =
     (let enable_pre = (case gdf_get_config e of
                          None \<Rightarrow> False | Some config \<Rightarrow> enable_preendpointer_recordings config);
          enable_post = (case gdf_get_config e of
                          None \<Rightarrow> False | Some config \<Rightarrow> enable_postendpointer_recordings config);
          have_call_log_path = ((enable_post \<or> enable_pre) \<and> call_log_path (pvt s) \<noteq> []);
          currently_recording_pre =
            (have_call_log_path \<and> utterance_preendpointer_recording_file_handle (pvt s) \<noteq> None);
          already_attempted_pre =
            (have_call_log_path \<and> utterance_preendpointer_recording_open_already_attempted (pvt s));
          currently_recording_post =
            (have_call_log_path \<and> utterance_postendpointer_recording_file_handle (pvt s) \<noteq> None);
          already_attempted_post =
            (have_call_log_path \<and> utterance_postendpointer_recording_open_already_attempted (pvt s));
          s1 = record_preendpointed_audio e mulaw enable_pre currently_recording_pre
                 already_attempted_pre s
      in record_postendpointed_audio e mulaw current_vad_state enable_post
           currently_recording_post already_attempted_post s1)"

text \<open>
  \<^verbatim>\<open>close_preendpointed_audio_recording\<close> (lines 488-497) and
  \<^verbatim>\<open>close_postendpointed_audio_recording\<close> (lines 499-508): the stop event is logged
  after the \<^verbatim>\<open>if\<close>, whether a file was open or not.
\<close>

definition close_preendpointed_audio_recording :: "env \<Rightarrow> session \<Rightarrow> session" where
  "close_preendpointed_audio_recording e s =
     (let s1 = (case utterance_preendpointer_recording_file_handle (pvt s) of
                  Some h \<Rightarrow>
                    (let s' = emit (Fclose h) s
                     in s'\<lparr>pvt := (pvt s')\<lparr>utterance_preendpointer_recording_file_handle := None\<rparr>\<rparr>)
                | None \<Rightarrow> s)
      in gdf_log_call_event_only e CALL_LOG_TYPE_ENDPOINTER ''pre_recording_stop'' s1)"

definition close_postendpointed_audio_recording :: "env \<Rightarrow> session \<Rightarrow> session" where
  "close_postendpointed_audio_recording e s =
     (let s1 = (case utterance_postendpointer_recording_file_handle (pvt s) of
                  Some h \<Rightarrow>
                    (let s' = emit (Fclose h) s
                     in s'\<lparr>pvt := (pvt s')\<lparr>utterance_postendpointer_recording_file_handle := None\<rparr>\<rparr>)
                | None \<Rightarrow> s)
      in gdf_log_call_event_only e CALL_LOG_TYPE_ENDPOINTER ''post_recording_stop'' s1)"

text \<open>\<^verbatim>\<open>gdf_stop_recognition\<close> (lines 510-517); it always returns 0.\<close>

definition gdf_stop_recognition :: "env \<Rightarrow> session \<Rightarrow> session" where
  "gdf_stop_recognition e s =
     write_end_of_recognition_call_event e
       (ast_speech_change_state AST_SPEECH_STATE_DONE
         (close_postendpointed_audio_recording e
           (close_preendpointed_audio_recording e s)))"

section \<open>Writing a frame\<close>

text \<open>
  The endpointer of \<^verbatim>\<open>gdf_write\<close>, lines 535-587: the fields are read, the frame's
  duration is added, the frame votes for or against the current state (lines 550-562),
  a transition is committed (lines 564-581) and the fields are stored. \<open>avg_level\<close>
  and \<open>datams\<close> are the local variables of that name.
\<close>

definition store_vad :: "VAD_STATE \<Rightarrow> int \<Rightarrow> int \<Rightarrow> session \<Rightarrow> session" where
  "store_vad vad cur_duration change_duration s =
     s\<lparr>pvt := (pvt s)\<lparr>vad_state := vad, vad_state_duration := cur_duration,
                        vad_change_duration := change_duration\<rparr>\<rparr>"

definition gdf_write_endpointer :: "env \<Rightarrow> int \<Rightarrow> int \<Rightarrow> session \<Rightarrow> session" where
  "gdf_write_endpointer e avg_level datams s =
     (let vad = vad_state (pvt s);
          threshold = voice_threshold (pvt s);
          voice_duration = voice_minimum_duration (pvt s);
          silence_duration = silence_minimum_duration (pvt s);
          cur_duration = vad_state_duration (pvt s) + datams;
          change_duration =
            (if avg_level \<ge> threshold
             then (if vad \<noteq> VAD_STATE_SPEAK then vad_change_duration (pvt s) + datams else 0)
             else (if vad \<noteq> VAD_STATE_SPEAK then 0 else vad_change_duration (pvt s) + datams))
      in if vad = VAD_STATE_START then
           (if change_duration \<ge> voice_duration
            then store_vad VAD_STATE_SPEAK 0 0
                   (gdf_log_call_event_only e CALL_LOG_TYPE_ENDPOINTER ''start_of_speech'' s)
            else store_vad vad cur_duration change_duration s)
         else if vad = VAD_STATE_SPEAK then
           (if change_duration \<ge> silence_duration
            then store_vad VAD_STATE_SILENT 0 0
                   (gdf_log_call_event_only e CALL_LOG_TYPE_ENDPOINTER ''end_of_speech'' s)
            else store_vad vad cur_duration change_duration s)
         else store_vad vad cur_duration change_duration s)"

text \<open>
  Lines 595-600 of \<^verbatim>\<open>gdf_write\<close>: on the frame that takes the endpointer from
  \<^verbatim>\<open>VAD_STATE_START\<close> to \<^verbatim>\<open>VAD_STATE_SPEAK\<close> the exchange is opened, and
  \<^verbatim>\<open>gdf_stop_recognition\<close> runs when that fails. \<open>orig_vad_state\<close> is the local
  variable of that name; the local \<^verbatim>\<open>vad_state\<close> is what the endpointer has just
  stored.
\<close>

definition gdf_write_start_recognition :: "env \<Rightarrow> VAD_STATE \<Rightarrow> session \<Rightarrow> session" where
  "gdf_write_start_recognition e orig_vad_state s =
     (if vad_state (pvt s) = VAD_STATE_SPEAK \<and> orig_vad_state = VAD_STATE_START
      then (let s' = emit (Df_start_recognition (language (pvt s))) s
            in if df_start_recognition_rc e \<noteq> 0 then gdf_stop_recognition e s' else s')
      else s)"

text \<open>
  Lines 602-634 of \<^verbatim>\<open>gdf_write\<close>: outside \<^verbatim>\<open>VAD_STATE_START\<close> the frame is
  converted, recorded and sent, and a terminal status of the exchange stops the
  recognition; in \<^verbatim>\<open>VAD_STATE_START\<close> the frame is only recorded, when a recording
  before the endpointer is open. \<open>datasamples\<close> is the local variable of that name.
\<close>

definition gdf_write_forward :: "env \<Rightarrow> short list \<Rightarrow> nat \<Rightarrow> session \<Rightarrow> session" where
  "gdf_write_forward e data datasamples s =
     (let vad = vad_state (pvt s)
      in if vad \<noteq> VAD_STATE_START then
           (let mulaw = map (AST_LIN2MU e) (take datasamples data);
                s2 = maybe_record_audio e mulaw vad s;
                s3 = emit (Df_write_audio mulaw) s2;
                state = df_write_audio_rc e;
                s4 = (if AST_SPEECH_SPOKE \<notin> speech_flags s3 \<and> df_get_response_count_rc e > 0
                      then s3\<lparr>speech_flags :=
                                insert AST_SPEECH_SPOKE (insert AST_SPEECH_QUIET (speech_flags s3))\<rparr>
                      else s3)
            in if state = DF_STATE_FINISHED \<or> state = DF_STATE_ERROR
               then gdf_stop_recognition e (emit Df_stop_recognition s4)
               else s4)
         else if are_currently_recording_pre_endpointed_audio (pvt s) then
           maybe_record_audio e (map (AST_LIN2MU e) (take datasamples data)) vad s
         else s)"

text \<open>
  \<^verbatim>\<open>static int gdf_write(struct ast_speech *speech, void *data, int len)\<close>
  (lines 520-637). \<open>data\<close> is the list of the \<^verbatim>\<open>short\<close>s readable at the pointer: the
  frame's \<open>len div 2\<close> samples and whatever memory follows them. \<open>len\<close> is the frame's
  length in bytes, a natural number. The level is computed by
  \<^verbatim>\<open>calculate_audio_level((short *)data, len)\<close> (line 549), with the length in bytes.
  The function returns 0 whenever it returns.
\<close>

definition gdf_write :: "env \<Rightarrow> session \<Rightarrow> short list \<Rightarrow> nat \<Rightarrow> fault + session" where
  "gdf_write e s data len =
     (let orig_vad_state = vad_state (pvt s);
          datasamples = len div 2;
          datams = int (datasamples div 8)
      in case calculate_audio_level data (int len) of
           Inl f \<Rightarrow> Inl f
         | Inr avg_level \<Rightarrow>
             Inr (gdf_write_forward e data datasamples
                    (gdf_write_start_recognition e orig_vad_state
                      (gdf_write_endpointer e avg_level datams s))))"

text \<open>The platform delivers the frames of a call one after the other; a fault ends
  the run.\<close>

fun gdf_write_all :: "(env \<times> short list \<times> nat) list \<Rightarrow> session \<Rightarrow> fault + session" where
  "gdf_write_all [] s = Inr s"
| "gdf_write_all ((e, data, len) # frames) s =
     (case gdf_write e s data len of
        Inl f \<Rightarrow> Inl f
      | Inr s' \<Rightarrow> gdf_write_all frames s')"

section \<open>Starting an utterance\<close>

text \<open>
  \<^verbatim>\<open>strcasecmp(a, b) == 0\<close>: the strings are equal once upper-case ASCII letters are
  folded to lower case.
\<close>

definition tolower_ascii :: "char \<Rightarrow> char" where
  "tolower_ascii c =
     (let n = (of_char c :: nat) in if 65 \<le> n \<and> n \<le> 90 then char_of (n + 32) else c)"

definition strcasecmp_eq :: "string \<Rightarrow> string \<Rightarrow> bool" where
  "strcasecmp_eq a b = (map tolower_ascii a = map tolower_ascii b)"


text \<open>\<^verbatim>\<open>should_start_call_log\<close> (lines 644-659).\<close>

definition should_start_call_log :: "env \<Rightarrow> gdf_pvt \<Rightarrow> bool" where
  "should_start_call_log e p =
     (let should_start = \<not> call_log_open_already_attempted p
      in if should_start
         then (case gdf_get_config e of
                 Some cfg \<Rightarrow> should_start \<and> enable_call_logs cfg
               | None \<Rightarrow> should_start)
         else should_start)"

text \<open>\<^verbatim>\<open>calculate_log_path\<close> (lines 662-688).\<close>

definition calculate_log_path :: "env \<Rightarrow> session \<Rightarrow> session" where
  "calculate_log_path e s =
     (case gdf_get_config e of
        Some cfg \<Rightarrow>
          s\<lparr>pvt := (pvt s)\<lparr>call_log_path :=
               ast_str_substitute_variables e (call_logging_application_name (pvt s))
                 (call_log_location cfg)\<rparr>\<rparr>
      | None \<Rightarrow> s)"

definition calculate_log_file_basename :: "env \<Rightarrow> session \<Rightarrow> session" where
  "calculate_log_file_basename e s =
     s\<lparr>pvt := (pvt s)\<lparr>call_log_file_basename := log_file_basename_now e (session_id (pvt s))\<rparr>\<rparr>"

text \<open>\<^verbatim>\<open>start_call_log\<close> (lines 721-750).\<close>

definition start_call_log :: "env \<Rightarrow> session \<Rightarrow> session" where
  "start_call_log e s =
     (let s1 = s\<lparr>pvt := (pvt s)\<lparr>call_log_open_already_attempted := True\<rparr>\<rparr>;
          s2 = calculate_log_path e s1;
          s3 = calculate_log_file_basename e s2
      in if call_log_path (pvt s3) \<noteq> [] then
           (let s4 = emit (Ast_mkdir (call_log_path (pvt s3))) s3;
                path = build_log_related_filename (pvt s4) False ''log'' ''jsonl'';
                (log_file, s5) = fopen_w e path s4
            in case log_file of
                 Some h \<Rightarrow> s5\<lparr>pvt := (pvt s5)\<lparr>call_log_file_handle := Some h\<rparr>\<rparr>
               | None \<Rightarrow> s5)
         else s3)"

text \<open>\<^verbatim>\<open>log_endpointer_start_event\<close> (lines 752-777).\<close>

definition log_endpointer_start_event :: "env \<Rightarrow> session \<Rightarrow> session" where
  "log_endpointer_start_event e s =
     gdf_log_call_event e CALL_LOG_TYPE_ENDPOINTER ''start''
       [(''voice_threshold'', Decimal (voice_threshold (pvt s))),
        (''voice_duration'', Decimal (voice_minimum_duration (pvt s))),
        (''silence_duration'', Decimal (silence_minimum_duration (pvt s)))] s"

text \<open>
  The first part of \<^verbatim>\<open>gdf_start\<close>, lines 786-815: the event is cleared, the
  endpointer is reset, the utterance counter is incremented, the call log is started
  when it should be, and the two start records are logged. \<open>ev\<close>, \<open>lang\<close> and
  \<open>proj\<close> are the copies taken at lines 787-789.
\<close>

definition gdf_start_reset :: "env \<Rightarrow> session \<Rightarrow> session" where
  "gdf_start_reset e s =
     (let ev = event (pvt s);
          lang = language (pvt s);
          proj = project_id (pvt s);
          s1 = s\<lparr>pvt := (pvt s)\<lparr>event := [], vad_state := VAD_STATE_START,
                    vad_state_duration := 0, vad_change_duration := 0,
                    utterance_counter := utterance_counter (pvt s) + 1\<rparr>\<rparr>;
          s2 = (if should_start_call_log e (pvt s1) then start_call_log e s1 else s1);
          s3 = gdf_log_call_event e CALL_LOG_TYPE_SESSION ''start''
                 [(''event'', Text ev), (''language'', Text lang), (''project_id'', Text proj),
                  (''logical_agent_name'', Text (logical_agent_name (pvt s2))),
                  (''utterance'', Decimal (utterance_counter (pvt s2))),
                  (''context'', Text (call_logging_context (pvt s2))),
                  (''application'', Text (call_logging_application_name (pvt s2)))] s2
      in log_endpointer_start_event e s3)"

text \<open>
  \<^verbatim>\<open>gdf_start\<close> (lines 779-829); it always returns 0. Lines 817-826: with an event
  set, the event is sent to the backend; when that fails the speech state becomes
  \<^verbatim>\<open>AST_SPEECH_STATE_NOT_READY\<close>, otherwise \<^verbatim>\<open>gdf_stop_recognition\<close> runs.
\<close>

definition gdf_start :: "env \<Rightarrow> session \<Rightarrow> session" where
  "gdf_start e s =
     (let ev = event (pvt s);
          lang = language (pvt s);
          s4 = gdf_start_reset e s
      in if ev \<noteq> [] then
           (let s5 = emit (Df_recognize_event ev lang) s4
            in if df_recognize_event_rc e \<noteq> 0
               then ast_speech_change_state AST_SPEECH_STATE_NOT_READY s5
               else gdf_stop_recognition e s5)
         else ast_speech_change_state AST_SPEECH_STATE_READY s4)"

text \<open>
  \<^verbatim>\<open>is_grammar_old_style_event\<close> (lines 246-251) and \<^verbatim>\<open>activate_old_style_event\<close>
  (lines 253-260): a grammar name \<^verbatim>\<open>event:NAME\<close> primes the session with the event
  \<^verbatim>\<open>NAME\<close>.
\<close>

definition is_grammar_old_style_event :: "string \<Rightarrow> bool" where
  "is_grammar_old_style_event grammar_name = strcasecmp_eq (take 6 grammar_name) ''event:''"

definition activate_old_style_event :: "string \<Rightarrow> session \<Rightarrow> session" where
  "activate_old_style_event grammar_name s =
     s\<lparr>pvt := (pvt s)\<lparr>event := drop 6 grammar_name\<rparr>\<rparr>"

text \<open>
  The session a successful \<^verbatim>\<open>gdf_create\<close> (lines 164-211) leaves: the structure is
  zero-filled by \<^verbatim>\<open>calloc\<close>, the backend session is created and given the
  configuration's key and endpoint (lines 184-186) and the session id (line 196), the
  three tunables come from the configuration, and \<open>sid\<close> is the text \<^verbatim>\<open>"%p"\<close> prints
  for the new structure.
\<close>

definition gdf_create :: "gdf_config \<Rightarrow> string \<Rightarrow> session" where
  "gdf_create cfg sid =
     \<lparr>speech_state = AST_SPEECH_STATE_NOT_READY,
      speech_flags = {},
      pvt = \<lparr>vad_state = VAD_STATE_START,
             vad_state_duration = 0,
             vad_change_duration = 0,
             voice_threshold = vad_voice_threshold cfg,
             voice_minimum_duration = vad_voice_minimum_duration cfg,
             silence_minimum_duration = vad_silence_minimum_duration cfg,
             call_log_open_already_attempted = False,
             call_log_file_handle = None,
             utterance_counter = 0,
             utterance_preendpointer_recording_open_already_attempted = False,
             utterance_preendpointer_recording_file_handle = None,
             utterance_postendpointer_recording_open_already_attempted = False,
             utterance_postendpointer_recording_file_handle = None,
             logical_agent_name = [],
             project_id = [],
             session_id = sid,
             event = [],
             language = [],
             call_log_path = [],
             call_log_file_basename = [],
             call_logging_application_name = ''unknown'',
             call_logging_context = []\<rparr>,
      next_FILE = 0,
      effects = [Df_create_session, Df_set_auth_key (service_key cfg),
                 Df_set_endpoint (endpoint cfg), Df_set_session_id sid]\<rparr>"

section \<open>Changing a property\<close>










section \<open>A concrete configuration and session\<close>

text \<open>
  The configuration \<^verbatim>\<open>load_config\<close> builds from an empty file (lines 1253-1308), with
  the call log location without its variables, and surroundings in which every
  \<^verbatim>\<open>fopen\<close> and every backend call succeeds. They are used to run the functions on
  concrete inputs.
\<close>

definition default_config :: gdf_config where
  "default_config =
     \<lparr>vad_voice_threshold = 512, vad_voice_minimum_duration = 40,
      vad_silence_minimum_duration = 500, enable_call_logs = True,
      enable_preendpointer_recordings = False, enable_postendpointer_recordings = False,
      service_key = [], endpoint = [],
      call_log_location = ''/var/log/dialogflow/''\<rparr>"

definition quiet_env :: "gdf_config \<Rightarrow> env" where
  "quiet_env cfg =
     \<lparr>gdf_get_config = Some cfg,
      fopen_succeeds = (\<lambda>path. True),
      df_start_recognition_rc = 0,
      df_write_audio_rc = DF_STATE_STARTED,
      df_get_response_count_rc = 0,
      df_recognize_event_rc = 0,
      AST_LIN2MU = (\<lambda>sample. 255),
      ast_str_substitute_variables = (\<lambda>application template. template),
      log_file_basename_now = (\<lambda>sid. ''0000_'' @ sid)\<rparr>"

text \<open>A session in which \<^verbatim>\<open>gdf_create\<close> and then \<^verbatim>\<open>gdf_start\<close> have run.\<close>

definition fresh_utterance :: "gdf_config \<Rightarrow> session" where
  "fresh_utterance cfg = gdf_start (quiet_env cfg) (gdf_create cfg ''0x1'')"

text \<open>
  Frames of 5 ms at 8 kHz: 40 samples, 80 bytes. \<^verbatim>\<open>gdf_write\<close> reads 80
  \<^verbatim>\<open>short\<close>s for the level. In \<open>loud_5ms_frames\<close> the 40 samples of magnitude 150 are
  followed in memory by 40 more \<^verbatim>\<open>short\<close>s of 150; in \<open>loud_frame_then_silence\<close> they
  are followed by 40 zeros.
\<close>

definition loud_frame_then_silence :: "short list" where
  "loud_frame_then_silence = replicate 40 150 @ replicate 40 0"

definition threshold_100_config :: gdf_config where
  "threshold_100_config = default_config\<lparr>vad_voice_threshold := 100\<rparr>"

definition loud_5ms_frames :: "nat \<Rightarrow> (env \<times> short list \<times> nat) list" where
  "loud_5ms_frames n = replicate n (quiet_env threshold_100_config, replicate 80 150, 80)"

definition short_silence_config :: gdf_config where
  "short_silence_config =
     default_config\<lparr>vad_voice_threshold := 100, vad_silence_minimum_duration := 5\<rparr>"

definition speech_then_silence :: "(env \<times> short list \<times> nat) list" where
  "speech_then_silence =
     replicate 8 (quiet_env short_silence_config, replicate 80 150, 80)
     @ [(quiet_env short_silence_config, replicate 80 0, 80)]"

text \<open>
  A frame of 16 samples of magnitude 100 (32 bytes, 2 ms), followed in memory by 16
  \<^verbatim>\<open>short\<close>s that are 0.
\<close>

definition two_ms_config :: gdf_config where
  "two_ms_config =
     default_config\<lparr>vad_voice_threshold := 100, vad_voice_minimum_duration := 2\<rparr>"

definition loud_frame_then_zeros :: "short list" where
  "loud_frame_then_zeros = replicate 16 100 @ replicate 16 0"

text \<open>
  A session primed with the event \<^verbatim>\<open>welcome\<close>, and surroundings in which
  \<^verbatim>\<open>df_recognize_event\<close> fails.
\<close>

definition primed_session :: session where
  "primed_session = activate_old_style_event ''event:welcome'' (gdf_create default_config ''0x1'')"

definition failing_event_env :: env where
  "failing_event_env = (quiet_env default_config)\<lparr>df_recognize_event_rc := 1\<rparr>"

text \<open>
  A configuration with both recordings enabled, and the session after one loud frame of
  5 ms has started speech and opened both recordings.
\<close>

definition recording_config :: gdf_config where
  "recording_config =
     default_config\<lparr>vad_voice_threshold := 100, vad_voice_minimum_duration := 5,
       enable_preendpointer_recordings := True, enable_postendpointer_recordings := True\<rparr>"

definition recording_session :: session where
  "recording_session =
     (case gdf_write (quiet_env recording_config) (fresh_utterance recording_config)
             (replicate 80 150) 80 of
        Inr s \<Rightarrow> s
      | Inl f \<Rightarrow> fresh_utterance recording_config)"

text \<open>
  Surroundings in which \<^verbatim>\<open>df_write_audio\<close> reports an error, and surroundings in which
  \<^verbatim>\<open>df_start_recognition\<close> fails, both with the recordings enabled.
\<close>

definition write_error_env :: env where
  "write_error_env = (quiet_env recording_config)\<lparr>df_write_audio_rc := DF_STATE_ERROR\<rparr>"

definition start_failure_env :: env where
  "start_failure_env = (quiet_env recording_config)\<lparr>df_start_recognition_rc := 1\<rparr>"

text \<open>
  A configuration with the call log disabled, and one that also enables the recording
  before the endpointer. Without a call log \<^verbatim>\<open>start_call_log\<close> never runs and the call
  log path stays empty.
\<close>

definition no_call_log_config :: gdf_config where
  "no_call_log_config =
     default_config\<lparr>vad_voice_threshold := 100, vad_voice_minimum_duration := 5,
       enable_call_logs := False\<rparr>"

definition recording_without_call_log_config :: gdf_config where
  "recording_without_call_log_config =
     no_call_log_config\<lparr>enable_preendpointer_recordings := True\<rparr>"

section \<open>Notions used in the statements\<close>

text \<open>What has been done to the outside world between two sessions of one run.\<close>

definition effects_since :: "session \<Rightarrow> session \<Rightarrow> effect list" where
  "effects_since s s' = drop (length (effects s)) (effects s')"

text \<open>The \<^verbatim>\<open>fclose\<close> of a stream that is open, and the record \<^verbatim>\<open>gdf_log_call_event_only\<close>
  writes in a session.\<close>

definition fclose_of :: "FILE option \<Rightarrow> effect list" where
  "fclose_of f = (case f of Some h \<Rightarrow> [Fclose h] | None \<Rightarrow> [])"

definition log_line :: "env \<Rightarrow> session \<Rightarrow> gdf_call_log_type \<Rightarrow> string \<Rightarrow> effect list" where
  "log_line e s ty ev =
     (if call_log_enabled_for_pvt e (pvt s)
      then [Fprintf_call_log (call_log_file_handle (pvt s)) ty ev []] else [])"

fun is_Fopen :: "effect \<Rightarrow> bool" where
  "is_Fopen (Fopen path f) = True"
| "is_Fopen x = False"

text \<open>
  What \<^verbatim>\<open>gdf_stop_recognition\<close> does to the outside world in a session: the two
  recordings are closed where open, and the three records are logged where the call log
  is enabled and open.
\<close>

definition finalize_events :: "env \<Rightarrow> session \<Rightarrow> effect list" where
  "finalize_events e s =
     fclose_of (utterance_preendpointer_recording_file_handle (pvt s))
     @ log_line e s CALL_LOG_TYPE_ENDPOINTER ''pre_recording_stop''
     @ fclose_of (utterance_postendpointer_recording_file_handle (pvt s))
     @ log_line e s CALL_LOG_TYPE_ENDPOINTER ''post_recording_stop''
     @ log_line e s CALL_LOG_TYPE_SESSION ''end''"

text \<open>The calls that stream audio to the backend.\<close>

fun is_streaming :: "effect \<Rightarrow> bool" where
  "is_streaming (Df_start_recognition lang) = True"
| "is_streaming (Df_write_audio mulaw) = True"
| "is_streaming x = False"

text \<open>The session's state, call log stream and call log path.\<close>

definition log_fields :: "session \<Rightarrow> ast_speech_states \<times> FILE option \<times> string" where
  "log_fields s = (speech_state s, call_log_file_handle (pvt s), call_log_path (pvt s))"



text \<open>The fields of a session that the endpointer reads and writes.\<close>

definition vad_fields :: "session \<Rightarrow> VAD_STATE \<times> int \<times> int \<times> int \<times> int \<times> int" where
  "vad_fields s =
     (vad_state (pvt s), vad_state_duration (pvt s), vad_change_duration (pvt s),
      voice_threshold (pvt s), voice_minimum_duration (pvt s), silence_minimum_duration (pvt s))"

text \<open>
  A frame of 80 bytes (5 ms at 8 kHz) for which line 549 of \<^verbatim>\<open>gdf_write\<close> computes the
  level 150. That level is taken over 80 \<^verbatim>\<open>short\<close>s, the frame's 40 samples and the 40
  \<^verbatim>\<open>short\<close>s after them; it is not the loudness of the frame.
\<close>

definition computed_level_150 :: "env \<times> short list \<times> nat \<Rightarrow> bool" where
  "computed_level_150 fr =
     (case fr of (e, data, len) \<Rightarrow> len = 80 \<and> calculate_audio_level data 80 = Inr 150)"

section \<open>Properties of the audio level estimator\<close>

subsection \<open>Facts about the loop\<close>

lemma sum_abs_loop_take:
  "n \<le> length slin \<Longrightarrow>
     sum_abs_loop slin n a = Inr (a + (\<Sum>s\<leftarrow>take n slin. \<bar>sint s\<bar>))"
proof (induction slin n a rule: sum_abs_loop.induct)
  case (1 slin acc)
  show ?case by simp
next
  case (2 n acc)
  then show ?case by simp
next
  case (3 sample rest n acc)
  then show ?case by simp
qed

lemma sum_abs_loop_short:
  "length slin < n \<Longrightarrow> sum_abs_loop slin n a = Inl OutOfBoundsRead"
  by (induction slin n a rule: sum_abs_loop.induct) simp_all

lemma abs_sint_short_le: "\<bar>sint (s :: short)\<bar> \<le> 32768"
proof -
  have "- (2 ^ (LENGTH(16) - 1)) \<le> sint s" by (rule sint_ge)
  moreover have "sint s < 2 ^ (LENGTH(16) - 1)" by (rule sint_lt)
  ultimately show ?thesis by simp
qed

lemma sum_list_abs_nonneg: "0 \<le> (\<Sum>s\<leftarrow>(xs :: short list). \<bar>sint s\<bar>)"
  by (induction xs) simp_all

lemma sum_list_abs_le: "(\<Sum>s\<leftarrow>(xs :: short list). \<bar>sint s\<bar>) \<le> 32768 * int (length xs)"
proof (induction xs)
  case Nil
  show ?case by simp
next
  case (Cons x xs)
  have "\<bar>sint x\<bar> \<le> 32768" by (rule abs_sint_short_le)
  with Cons show ?case by simp
qed

text \<open>No overflow of the \<^verbatim>\<open>long long\<close> accumulator: with \<^verbatim>\<open>len\<close> an \<^verbatim>\<open>int\<close>, the sum
  is at most \<open>2 ^ 15 * 2 ^ 31\<close>.\<close>

lemma sum_abs_loop_bound:
  assumes "sum_abs_loop slin n 0 = Inr acc" and "n < 2 ^ 31"
  shows "0 \<le> acc \<and> acc < 2 ^ 63"
proof -
  have le: "n \<le> length slin"
  proof (rule ccontr)
    assume "\<not> n \<le> length slin"
    then have "sum_abs_loop slin n 0 = Inl OutOfBoundsRead"
      by (simp add: sum_abs_loop_short)
    with assms(1) show False by simp
  qed
  then have eq: "acc = (\<Sum>s\<leftarrow>take n slin. \<bar>sint s\<bar>)"
    using assms(1) by (simp add: sum_abs_loop_take)
  have "acc \<le> 32768 * int (length (take n slin))"
    unfolding eq by (rule sum_list_abs_le)
  also have "\<dots> = 32768 * int n" using le by simp
  also have "\<dots> < 32768 * 2 ^ 31" using assms(2) by simp
  finally have "acc < 2 ^ 63" by simp
  moreover have "0 \<le> acc" unfolding eq by (rule sum_list_abs_nonneg)
  ultimately show ?thesis by simp
qed



lemma calculate_audio_level_prefix:
  assumes "0 < len" and "nat len \<le> length slin"
  shows "calculate_audio_level slin len = Inr (mean_abs_magnitude (take (nat len) slin))"
  using assms
  by (simp add: calculate_audio_level_def sum_abs_loop_take mean_abs_magnitude_def min_def)

lemma calculate_audio_level_zero: "calculate_audio_level slin 0 = Inl DivisionByZero"
  by (simp add: calculate_audio_level_def)

lemma calculate_audio_level_not_zero:
  "len \<noteq> 0 \<Longrightarrow> calculate_audio_level slin len \<noteq> Inl DivisionByZero"
proof (cases "nat len \<le> length slin")
  case True
  assume "len \<noteq> 0"
  with True show ?thesis
    by (simp add: calculate_audio_level_def sum_abs_loop_take)
next
  case False
  then have "sum_abs_loop slin (nat len) 0 = Inl OutOfBoundsRead"
    by (simp add: sum_abs_loop_short)
  then show ?thesis by (simp add: calculate_audio_level_def)
qed

lemma mean_abs_magnitude_range:
  "0 \<le> mean_abs_magnitude samples \<and> mean_abs_magnitude samples \<le> 32768"
proof -
  let ?n = "int (length samples)"
  let ?t = "\<Sum>s\<leftarrow>samples. \<bar>sint s\<bar>"
  have nonneg: "0 \<le> ?t" by (rule sum_list_abs_nonneg)
  have upper: "?t \<le> 32768 * ?n" by (rule sum_list_abs_le)
  have "0 \<le> ?t div ?n" using nonneg by (simp add: pos_imp_zdiv_nonneg_iff div_int_pos_iff)
  moreover have "?t div ?n \<le> 32768"
  proof (cases "samples = []")
    case True
    then show ?thesis by simp
  next
    case False
    then have pos: "0 < ?n" by simp
    have "?t div ?n \<le> (32768 * ?n) div ?n" using upper pos by (rule zdiv_mono1)
    with pos show ?thesis by simp
  qed
  ultimately show ?thesis by (simp add: mean_abs_magnitude_def)
qed

text \<open>
  C5, as amended. For every non-empty sequence of samples, \<^verbatim>\<open>calculate_audio_level\<close>
  called with the sequence's length returns the sum of the absolute sample values
  divided by the count and rounded down, and the result lies between 0 and 32768: a
  sample of -32768 has the magnitude 32768.
\<close>

theorem calculate_audio_level_mean_abs:
  assumes "samples \<noteq> []"
  shows "\<exists>m. calculate_audio_level samples (int (length samples)) = Inr m
           \<and> m * int (length samples) \<le> (\<Sum>s\<leftarrow>samples. \<bar>sint s\<bar>)
           \<and> (\<Sum>s\<leftarrow>samples. \<bar>sint s\<bar>) < (m + 1) * int (length samples)
           \<and> 0 \<le> m \<and> m \<le> 32768"
proof -
  let ?n = "int (length samples)"
  let ?t = "\<Sum>s\<leftarrow>samples. \<bar>sint s\<bar>"
  let ?m = "mean_abs_magnitude samples"
  from assms have pos: "0 < ?n" by simp
  have level: "calculate_audio_level samples ?n = Inr ?m"
    using calculate_audio_level_prefix [of ?n samples] pos by simp
  have m: "?m = ?t div ?n" by (simp add: mean_abs_magnitude_def)
  have split: "?m * ?n = ?t - ?t mod ?n"
    unfolding m by (simp add: minus_mod_eq_mult_div mult.commute)
  have rem: "0 \<le> ?t mod ?n \<and> ?t mod ?n < ?n" using pos by simp
  have lower: "?m * ?n \<le> ?t" using split rem by linarith
  have "(?m + 1) * ?n = ?m * ?n + ?n" by (simp add: algebra_simps)
  then have higher: "?t < (?m + 1) * ?n" using split rem by linarith
  from level lower higher mean_abs_magnitude_range [of samples] show ?thesis by blast
qed

theorem calculate_audio_level_mean_abs_witness:
  "[3, - 4 :: short] \<noteq> [] \<and>
   (\<exists>m. calculate_audio_level [3, - 4] (int (length [3, - 4 :: short])) = Inr m
      \<and> m * int (length [3, - 4 :: short]) \<le> (\<Sum>s\<leftarrow>[3, - 4 :: short]. \<bar>sint s\<bar>)
      \<and> (\<Sum>s\<leftarrow>[3, - 4 :: short]. \<bar>sint s\<bar>) < (m + 1) * int (length [3, - 4 :: short])
      \<and> 0 \<le> m \<and> m \<le> 32768)"
proof -
  have ne: "[3, - 4 :: short] \<noteq> []" by simp
  show ?thesis using ne calculate_audio_level_mean_abs [OF ne] by blast
qed

text \<open>
  C5 as stated fails at the one-sample frame \<open>[-32768]\<close>: the level is 32768, above the
  claimed bound 32767.
\<close>

theorem calculate_audio_level_exceeds_32767:
  "calculate_audio_level [- 32768] (int (length [- 32768 :: short])) = Inr 32768
   \<and> \<not> (32768 :: int) \<le> 32767"
  by (simp add: calculate_audio_level_def)

section \<open>Properties of the endpointer\<close>

subsection \<open>What recording and forwarding leave alone\<close>

lemma vad_fields_emit: "vad_fields (emit x s) = vad_fields s"
  by (simp add: vad_fields_def emit_def)

lemma vad_fields_log: "vad_fields (gdf_log_call_event e ty ev d s) = vad_fields s"
  by (simp add: gdf_log_call_event_def vad_fields_emit)

lemma vad_fields_log_only: "vad_fields (gdf_log_call_event_only e ty ev s) = vad_fields s"
  by (simp add: gdf_log_call_event_only_def vad_fields_log)

lemma vad_fields_fopen: "vad_fields (snd (fopen_w e path s)) = vad_fields s"
  by (simp add: fopen_w_def vad_fields_def emit_def)

lemma vad_fields_open_pre: "vad_fields (snd (open_preendpointed_recording_file e s)) = vad_fields s"
  by (simp add: open_preendpointed_recording_file_def fopen_w_def gdf_log_call_event_def
      emit_def vad_fields_def Let_def)

lemma vad_fields_open_post: "vad_fields (snd (open_postendpointed_recording_file e s)) = vad_fields s"
  by (simp add: open_postendpointed_recording_file_def fopen_w_def gdf_log_call_event_def
      emit_def vad_fields_def Let_def)

lemma vad_fields_record_pre:
  "vad_fields (record_preendpointed_audio e mulaw en cur att s) = vad_fields s"
  using vad_fields_open_pre [of e s]
  by (auto simp: record_preendpointed_audio_def Let_def vad_fields_emit split: prod.splits)

lemma vad_fields_record_post:
  "vad_fields (record_postendpointed_audio e mulaw vad en cur att s) = vad_fields s"
  using vad_fields_open_post [of e s]
  by (auto simp: record_postendpointed_audio_def Let_def vad_fields_emit split: prod.splits)

lemma vad_fields_maybe_record: "vad_fields (maybe_record_audio e mulaw vad s) = vad_fields s"
  by (simp add: maybe_record_audio_def Let_def vad_fields_record_pre vad_fields_record_post)

lemma vad_fields_close_pre: "vad_fields (close_preendpointed_audio_recording e s) = vad_fields s"
  by (simp add: close_preendpointed_audio_recording_def Let_def vad_fields_log_only split: option.splits)
     (simp add: vad_fields_def emit_def)

lemma vad_fields_close_post: "vad_fields (close_postendpointed_audio_recording e s) = vad_fields s"
  by (simp add: close_postendpointed_audio_recording_def Let_def vad_fields_log_only split: option.splits)
     (simp add: vad_fields_def emit_def)

lemma vad_fields_change_state: "vad_fields (ast_speech_change_state st s) = vad_fields s"
  by (cases st) (simp_all add: ast_speech_change_state_def vad_fields_def)

lemma vad_fields_stop: "vad_fields (gdf_stop_recognition e s) = vad_fields s"
  by (simp add: gdf_stop_recognition_def write_end_of_recognition_call_event_def
      vad_fields_log_only vad_fields_change_state vad_fields_close_post vad_fields_close_pre)

lemma vad_fields_flags: "vad_fields (s\<lparr>speech_flags := fl\<rparr>) = vad_fields s"
  by (simp add: vad_fields_def)

lemma vad_fields_start_recognition:
  "vad_fields (gdf_write_start_recognition e orig s) = vad_fields s"
  by (simp add: gdf_write_start_recognition_def Let_def vad_fields_stop vad_fields_emit)

lemma vad_fields_forward: "vad_fields (gdf_write_forward e data n s) = vad_fields s"
  by (simp add: gdf_write_forward_def Let_def vad_fields_stop vad_fields_emit
      vad_fields_maybe_record vad_fields_flags)

subsection \<open>One frame\<close>

lemma vad_fields_endpointer_start_stay:
  assumes "vad_state (pvt s) = VAD_STATE_START" and "voice_threshold (pvt s) \<le> avg_level"
    and "vad_change_duration (pvt s) + datams < voice_minimum_duration (pvt s)"
  shows "vad_fields (gdf_write_endpointer e avg_level datams s) =
           (VAD_STATE_START, vad_state_duration (pvt s) + datams,
            vad_change_duration (pvt s) + datams, voice_threshold (pvt s),
            voice_minimum_duration (pvt s), silence_minimum_duration (pvt s))"
  using assms by (simp add: gdf_write_endpointer_def Let_def store_vad_def vad_fields_def)

lemma vad_fields_endpointer_start_commit:
  assumes "vad_state (pvt s) = VAD_STATE_START" and "voice_threshold (pvt s) \<le> avg_level"
    and "voice_minimum_duration (pvt s) \<le> vad_change_duration (pvt s) + datams"
  shows "vad_fields (gdf_write_endpointer e avg_level datams s) =
           (VAD_STATE_SPEAK, 0, 0, voice_threshold (pvt s),
            voice_minimum_duration (pvt s), silence_minimum_duration (pvt s))"
proof -
  have "vad_fields (gdf_log_call_event_only e CALL_LOG_TYPE_ENDPOINTER ''start_of_speech'' s)
          = vad_fields s"
    by (rule vad_fields_log_only)
  then show ?thesis
    using assms by (simp add: gdf_write_endpointer_def Let_def store_vad_def vad_fields_def)
qed

lemma endpointer_from_start:
  assumes "vad_state (pvt s) = VAD_STATE_START"
  shows "vad_state (pvt (gdf_write_endpointer e avg_level datams s)) \<noteq> VAD_STATE_SILENT"
  using assms by (simp add: gdf_write_endpointer_def Let_def store_vad_def)

lemma gdf_write_vad_fields:
  assumes "gdf_write e s data len = Inr s'"
  shows "\<exists>avg_level. calculate_audio_level data (int len) = Inr avg_level \<and>
           vad_fields s' = vad_fields (gdf_write_endpointer e avg_level (int (len div 2 div 8)) s)"
  using assms
  by (auto simp: gdf_write_def Let_def vad_fields_forward vad_fields_start_recognition
      split: sum.splits)

lemma gdf_write_returns:
  assumes "calculate_audio_level data (int len) = Inr avg_level"
  shows "\<exists>s'. gdf_write e s data len = Inr s'"
  using assms by (simp add: gdf_write_def Let_def)

lemma gdf_write_from_start:
  assumes "gdf_write e s data len = Inr s'" and "vad_state (pvt s) = VAD_STATE_START"
  shows "vad_state (pvt s') \<noteq> VAD_STATE_SILENT"
proof -
  from gdf_write_vad_fields [OF assms(1)] obtain avg_level where
    "vad_fields s' = vad_fields (gdf_write_endpointer e avg_level (int (len div 2 div 8)) s)"
    by blast
  then have "vad_state (pvt s') =
      vad_state (pvt (gdf_write_endpointer e avg_level (int (len div 2 div 8)) s))"
    by (simp add: vad_fields_def)
  with endpointer_from_start [OF assms(2)] show ?thesis by simp
qed

lemma gdf_write_all_append:
  "gdf_write_all (xs @ ys) s =
     (case gdf_write_all xs s of Inl f \<Rightarrow> Inl f | Inr s1 \<Rightarrow> gdf_write_all ys s1)"
  by (induction xs arbitrary: s) (auto split: sum.splits)

lemma gdf_write_all_take_Suc:
  assumes "k < length frames"
  shows "gdf_write_all (take (Suc k) frames) s =
           (case gdf_write_all (take k frames) s of
              Inl f \<Rightarrow> Inl f
            | Inr s1 \<Rightarrow> gdf_write_all [frames ! k] s1)"
  using assms by (simp add: take_Suc_conv_app_nth gdf_write_all_append)

subsection \<open>Frames of level 150 from the start of an utterance\<close>

lemma loud_frames_accumulate:
  assumes "list_all computed_level_150 frames"
    and "vad_state (pvt s) = VAD_STATE_START"
    and "voice_threshold (pvt s) = 100" and "voice_minimum_duration (pvt s) = 40"
    and "vad_change_duration (pvt s) + 5 * int (length frames) < 40"
  shows "\<exists>s'. gdf_write_all frames s = Inr s' \<and> vad_state (pvt s') = VAD_STATE_START
           \<and> vad_change_duration (pvt s') = vad_change_duration (pvt s) + 5 * int (length frames)
           \<and> voice_threshold (pvt s') = 100 \<and> voice_minimum_duration (pvt s') = 40"
  using assms
proof (induction frames arbitrary: s)
  case Nil
  then show ?case by simp
next
  case (Cons fr frames)
  obtain e data len where fr: "fr = (e, data, len)" by (cases fr)
  from Cons.prems(1) fr have len: "len = 80" and level: "calculate_audio_level data 80 = Inr 150"
    by (simp_all add: computed_level_150_def)
  from level obtain s1 where s1: "gdf_write e s data 80 = Inr s1"
    using gdf_write_returns [of data 80 150 e s] by auto
  from gdf_write_vad_fields [OF s1] level
  have "vad_fields s1 = vad_fields (gdf_write_endpointer e 150 5 s)" by simp
  also have "\<dots> = (VAD_STATE_START, vad_state_duration (pvt s) + 5,
            vad_change_duration (pvt s) + 5, voice_threshold (pvt s),
            voice_minimum_duration (pvt s), silence_minimum_duration (pvt s))"
    using Cons.prems by (intro vad_fields_endpointer_start_stay) simp_all
  finally have f1: "vad_state (pvt s1) = VAD_STATE_START"
    "vad_change_duration (pvt s1) = vad_change_duration (pvt s) + 5"
    "voice_threshold (pvt s1) = 100" "voice_minimum_duration (pvt s1) = 40"
    using Cons.prems by (simp_all add: vad_fields_def)
  have "\<exists>s'. gdf_write_all frames s1 = Inr s' \<and> vad_state (pvt s') = VAD_STATE_START
           \<and> vad_change_duration (pvt s') = vad_change_duration (pvt s1) + 5 * int (length frames)
           \<and> voice_threshold (pvt s') = 100 \<and> voice_minimum_duration (pvt s') = 40"
    using Cons.prems f1 by (intro Cons.IH) simp_all
  then show ?case using s1 f1 fr len by auto
qed

text \<open>
  Where the level that line 549 computes is 150 for every frame: with
  \<^verbatim>\<open>voice_threshold\<close> 100 and \<^verbatim>\<open>voice_minimum_duration\<close> 40, a session in
  \<^verbatim>\<open>VAD_STATE_START\<close> with no opposing time accumulated, and consecutive frames of 5 ms
  at 8 kHz written by \<^verbatim>\<open>gdf_write\<close>, the state is still \<^verbatim>\<open>VAD_STATE_START\<close> after
  fewer than eight frames, with 5 ms of opposing time per frame, and the eighth frame
  commits \<^verbatim>\<open>VAD_STATE_SPEAK\<close>. The endpointer counts as C1 says; the level it is given
  is another matter, see below.
\<close>

lemma computed_level_150_commits_on_eighth_frame:
  assumes "list_all computed_level_150 frames" and "length frames \<le> 8"
    and "vad_state (pvt s) = VAD_STATE_START" and "vad_change_duration (pvt s) = 0"
    and "voice_threshold (pvt s) = 100" and "voice_minimum_duration (pvt s) = 40"
  shows "\<exists>s'. gdf_write_all frames s = Inr s'
           \<and> vad_state (pvt s') = (if length frames < 8 then VAD_STATE_START else VAD_STATE_SPEAK)
           \<and> vad_change_duration (pvt s') = (if length frames < 8 then 5 * int (length frames) else 0)"
proof (cases "length frames < 8")
  case True
  with loud_frames_accumulate [of frames s] assms show ?thesis by auto
next
  case False
  with assms(2) have n: "length frames = 8" by simp
  then obtain front fr where split: "frames = front @ [fr]" and nf: "length front = 7"
    by (cases frames rule: rev_cases) auto
  obtain e data len where fr: "fr = (e, data, len)" by (cases fr)
  from assms(1) split fr have front: "list_all computed_level_150 front"
    and len: "len = 80" and level: "calculate_audio_level data 80 = Inr 150"
    by (simp_all add: computed_level_150_def)
  from loud_frames_accumulate [OF front assms(3) assms(5) assms(6)] nf assms(4)
  obtain s7 where s7: "gdf_write_all front s = Inr s7" "vad_state (pvt s7) = VAD_STATE_START"
    "vad_change_duration (pvt s7) = 35" "voice_threshold (pvt s7) = 100"
    "voice_minimum_duration (pvt s7) = 40"
    by auto
  from level obtain s8 where s8: "gdf_write e s7 data 80 = Inr s8"
    using gdf_write_returns [of data 80 150 e s7] by auto
  from gdf_write_vad_fields [OF s8] level
  have "vad_fields s8 = vad_fields (gdf_write_endpointer e 150 5 s7)" by simp
  also have "\<dots> = (VAD_STATE_SPEAK, 0, 0, voice_threshold (pvt s7),
            voice_minimum_duration (pvt s7), silence_minimum_duration (pvt s7))"
    using s7 by (intro vad_fields_endpointer_start_commit) simp_all
  finally have "vad_state (pvt s8) = VAD_STATE_SPEAK" "vad_change_duration (pvt s8) = 0"
    by (simp_all add: vad_fields_def)
  moreover have "gdf_write_all frames s = Inr s8"
    using split fr len s7(1) s8 by (simp add: gdf_write_all_append)
  ultimately show ?thesis using n by simp
qed

text \<open>
  So it is at a fresh utterance with the threshold 100 when the 40 samples of magnitude
  150 of each frame are followed in memory by 40 more: seven frames leave the state at
  \<^verbatim>\<open>VAD_STATE_START\<close> with 35 ms accumulated, eight frames commit
  \<^verbatim>\<open>VAD_STATE_SPEAK\<close>.
\<close>

lemma computed_level_150_commits_on_eighth_frame_example:
  "list_all computed_level_150 (loud_5ms_frames 8)
   \<and> vad_state (pvt (fresh_utterance threshold_100_config)) = VAD_STATE_START
   \<and> vad_change_duration (pvt (fresh_utterance threshold_100_config)) = 0
   \<and> voice_threshold (pvt (fresh_utterance threshold_100_config)) = 100
   \<and> voice_minimum_duration (pvt (fresh_utterance threshold_100_config)) = 40
   \<and> (\<exists>s'. gdf_write_all (loud_5ms_frames 7) (fresh_utterance threshold_100_config) = Inr s'
          \<and> vad_state (pvt s') = VAD_STATE_START \<and> vad_change_duration (pvt s') = 35)
   \<and> (\<exists>s'. gdf_write_all (loud_5ms_frames 8) (fresh_utterance threshold_100_config) = Inr s'
          \<and> vad_state (pvt s') = VAD_STATE_SPEAK \<and> vad_change_duration (pvt s') = 0)"
proof -
  let ?s = "fresh_utterance threshold_100_config"
  have f8: "list_all computed_level_150 (loud_5ms_frames 8)" by code_simp
  have f7: "list_all computed_level_150 (loud_5ms_frames 7)" by code_simp
  have n8: "length (loud_5ms_frames 8) \<le> 8" and n7: "length (loud_5ms_frames 7) \<le> 8"
    by (simp_all add: loud_5ms_frames_def)
  have st: "vad_state (pvt ?s) = VAD_STATE_START" by code_simp
  have ch: "vad_change_duration (pvt ?s) = 0" by code_simp
  have th: "voice_threshold (pvt ?s) = 100" by code_simp
  have vd: "voice_minimum_duration (pvt ?s) = 40" by code_simp
  from computed_level_150_commits_on_eighth_frame [OF f7 n7 st ch th vd]
  have seven: "\<exists>s'. gdf_write_all (loud_5ms_frames 7) ?s = Inr s'
          \<and> vad_state (pvt s') = VAD_STATE_START \<and> vad_change_duration (pvt s') = 35"
    by (simp add: loud_5ms_frames_def)
  from computed_level_150_commits_on_eighth_frame [OF f8 n8 st ch th vd]
  have eight: "\<exists>s'. gdf_write_all (loud_5ms_frames 8) ?s = Inr s'
          \<and> vad_state (pvt s') = VAD_STATE_SPEAK \<and> vad_change_duration (pvt s') = 0"
    by (simp add: loud_5ms_frames_def)
  from f8 st ch th vd seven eight show ?thesis by blast
qed

text \<open>
  C1 says that with \<^verbatim>\<open>voice_threshold\<close> 100 and \<^verbatim>\<open>voice_minimum_duration\<close> 40,
  consecutive frames of 5 ms of loudness 150 commit \<^verbatim>\<open>VAD_STATE_SPEAK\<close> on the eighth
  frame. The loudness of a frame is the mean magnitude of its 40 samples, but line 549
  of \<^verbatim>\<open>gdf_write\<close> passes the length in bytes and the level is taken over 80
  \<^verbatim>\<open>short\<close>s. At frames of 40 samples of magnitude 150 that are followed in memory by
  40 zeros: the loudness of the frame is 150, the level the code computes is 75, below
  the threshold, and after eight frames the state is still \<^verbatim>\<open>VAD_STATE_START\<close> with no
  opposing time accumulated. Where only the frame is readable the read runs past it.
  The same 40 samples followed by 40 \<^verbatim>\<open>short\<close>s of 150 commit \<^verbatim>\<open>VAD_STATE_SPEAK\<close> on
  the eighth frame: what the frame does depends on the memory after it.
\<close>

theorem loud_frames_before_zeros_stay_in_start:
  "mean_abs_magnitude (take (80 div 2) loud_frame_then_silence) = 150
   \<and> calculate_audio_level loud_frame_then_silence 80 = Inr 75
   \<and> map_sum id (\<lambda>s'. (vad_state (pvt s'), vad_change_duration (pvt s')))
        (gdf_write_all (replicate 8 (quiet_env threshold_100_config, loud_frame_then_silence, 80))
           (fresh_utterance threshold_100_config))
       = Inr (VAD_STATE_START, 0)
   \<and> gdf_write (quiet_env threshold_100_config) (fresh_utterance threshold_100_config)
        (take (80 div 2) loud_frame_then_silence) 80 = Inl OutOfBoundsRead
   \<and> take (80 div 2) (replicate 80 150) = take (80 div 2) loud_frame_then_silence
   \<and> map_sum id (\<lambda>s'. (vad_state (pvt s'), vad_change_duration (pvt s')))
        (gdf_write_all (loud_5ms_frames 8) (fresh_utterance threshold_100_config))
       = Inr (VAD_STATE_SPEAK, 0)"
  by code_simp

subsection \<open>No step from the start state to silence\<close>

lemma silent_after_speak:
  assumes "gdf_write_all frames s = Inr s'" and "vad_state (pvt s) = VAD_STATE_START"
    and "vad_state (pvt s') = VAD_STATE_SILENT"
  shows "\<exists>k s1. k < length frames \<and> gdf_write_all (take k frames) s = Inr s1
           \<and> vad_state (pvt s1) = VAD_STATE_SPEAK"
  using assms
proof (induction frames arbitrary: s)
  case Nil
  then show ?case by simp
next
  case (Cons fr frames)
  obtain e data len where fr: "fr = (e, data, len)" by (cases fr)
  from Cons.prems(1) fr obtain s1 where
    s1: "gdf_write e s data len = Inr s1" and rest: "gdf_write_all frames s1 = Inr s'"
    by (auto split: sum.splits)
  from gdf_write_from_start [OF s1 Cons.prems(2)]
  have "vad_state (pvt s1) = VAD_STATE_START \<or> vad_state (pvt s1) = VAD_STATE_SPEAK"
    by (cases "vad_state (pvt s1)") simp_all
  then show ?case
  proof
    assume start: "vad_state (pvt s1) = VAD_STATE_START"
    from Cons.IH [OF rest start Cons.prems(3)] obtain k s2 where
      "k < length frames" "gdf_write_all (take k frames) s1 = Inr s2"
      "vad_state (pvt s2) = VAD_STATE_SPEAK"
      by blast
    then have "Suc k < length (fr # frames) \<and>
        gdf_write_all (take (Suc k) (fr # frames)) s = Inr s2 \<and>
        vad_state (pvt s2) = VAD_STATE_SPEAK"
      using fr s1 by simp
    then show ?thesis by blast
  next
    assume speak: "vad_state (pvt s1) = VAD_STATE_SPEAK"
    have "frames \<noteq> []"
    proof
      assume "frames = []"
      with rest have "s' = s1" by simp
      with speak Cons.prems(3) show False by simp
    qed
    then have "Suc 0 < length (fr # frames) \<and>
        gdf_write_all (take (Suc 0) (fr # frames)) s = Inr s1 \<and>
        vad_state (pvt s1) = VAD_STATE_SPEAK"
      using fr s1 speak by simp
    then show ?thesis by blast
  qed
qed

text \<open>
  C2. For every session in \<^verbatim>\<open>VAD_STATE_START\<close>, whatever its minimum durations and
  threshold, and every sequence of frames \<^verbatim>\<open>gdf_write\<close> processes: no frame takes
  the state from \<^verbatim>\<open>VAD_STATE_START\<close> to \<^verbatim>\<open>VAD_STATE_SILENT\<close>, and when the run
  ends in \<^verbatim>\<open>VAD_STATE_SILENT\<close> the state was \<^verbatim>\<open>VAD_STATE_SPEAK\<close> after some
  earlier frame.
\<close>

theorem no_direct_start_to_silent:
  assumes "gdf_write_all frames s = Inr s'" and "vad_state (pvt s) = VAD_STATE_START"
  shows "(\<forall>k s1 s2. k < length frames \<and> gdf_write_all (take k frames) s = Inr s1
            \<and> vad_state (pvt s1) = VAD_STATE_START
            \<and> gdf_write_all (take (Suc k) frames) s = Inr s2
            \<longrightarrow> vad_state (pvt s2) \<noteq> VAD_STATE_SILENT)
       \<and> (vad_state (pvt s') = VAD_STATE_SILENT \<longrightarrow>
            (\<exists>k s1. k < length frames \<and> gdf_write_all (take k frames) s = Inr s1
               \<and> vad_state (pvt s1) = VAD_STATE_SPEAK))"
proof (intro conjI allI impI)
  fix k s1 s2
  assume h: "k < length frames \<and> gdf_write_all (take k frames) s = Inr s1
            \<and> vad_state (pvt s1) = VAD_STATE_START
            \<and> gdf_write_all (take (Suc k) frames) s = Inr s2"
  obtain e data len where fr: "frames ! k = (e, data, len)" by (cases "frames ! k")
  from h have k: "k < length frames" and s1: "gdf_write_all (take k frames) s = Inr s1"
    and start: "vad_state (pvt s1) = VAD_STATE_START"
    and s2: "gdf_write_all (take (Suc k) frames) s = Inr s2"
    by simp_all
  have "gdf_write_all (take (Suc k) frames) s = gdf_write_all [frames ! k] s1"
    unfolding gdf_write_all_take_Suc [OF k] s1 by simp
  with s2 fr have "gdf_write e s1 data len = Inr s2" by (simp split: sum.splits)
  then show "vad_state (pvt s2) \<noteq> VAD_STATE_SILENT"
    using start by (rule gdf_write_from_start)
next
  assume "vad_state (pvt s') = VAD_STATE_SILENT"
  with assms show "\<exists>k s1. k < length frames \<and> gdf_write_all (take k frames) s = Inr s1
               \<and> vad_state (pvt s1) = VAD_STATE_SPEAK"
    by (rule silent_after_speak)
qed

text \<open>
  The theorem at a run of eight loud frames and one silent frame, with a minimum
  silence of 5 ms: the run ends in \<^verbatim>\<open>VAD_STATE_SILENT\<close> and has passed
  \<^verbatim>\<open>VAD_STATE_SPEAK\<close>.
\<close>

theorem no_direct_start_to_silent_witness:
  "\<exists>s'. gdf_write_all speech_then_silence (fresh_utterance short_silence_config) = Inr s'
      \<and> vad_state (pvt (fresh_utterance short_silence_config)) = VAD_STATE_START
      \<and> vad_state (pvt s') = VAD_STATE_SILENT
      \<and> (\<exists>k s1. k < length speech_then_silence
            \<and> gdf_write_all (take k speech_then_silence)
                  (fresh_utterance short_silence_config) = Inr s1
            \<and> vad_state (pvt s1) = VAD_STATE_SPEAK)"
proof -
  let ?s = "fresh_utterance short_silence_config"
  have "case gdf_write_all speech_then_silence ?s of
          Inl f \<Rightarrow> False | Inr s' \<Rightarrow> vad_state (pvt s') = VAD_STATE_SILENT"
    by code_simp
  then obtain s' where run: "gdf_write_all speech_then_silence ?s = Inr s'"
    and silent: "vad_state (pvt s') = VAD_STATE_SILENT"
    by (auto split: sum.splits)
  have start: "vad_state (pvt ?s) = VAD_STATE_START" by code_simp
  from no_direct_start_to_silent [OF run start] silent
  have "\<exists>k s1. k < length speech_then_silence
            \<and> gdf_write_all (take k speech_then_silence) ?s = Inr s1
            \<and> vad_state (pvt s1) = VAD_STATE_SPEAK"
    by blast
  with run start silent show ?thesis by blast
qed

section \<open>The level compared with the threshold\<close>

text \<open>
  C3 says that the level compared with \<^verbatim>\<open>voice_threshold\<close> is the mean magnitude of
  the frame's \<open>len div 2\<close> samples. \<^verbatim>\<open>gdf_write\<close> passes \<^verbatim>\<open>len\<close>, the length in
  bytes, to \<^verbatim>\<open>calculate_audio_level\<close> (line 549), although line 544 computes the
  number of samples. At a frame of 16 samples of magnitude 100 followed in memory by 16
  zeros, with the threshold 100 and a minimum voice duration of 2 ms: the frame's mean
  magnitude is 100, the level the code computes is 50 (32 \<^verbatim>\<open>short\<close>s are summed and the
  sum is divided by 32), the endpointer would commit \<^verbatim>\<open>VAD_STATE_SPEAK\<close> on the level
  100, and \<^verbatim>\<open>gdf_write\<close> stays in \<^verbatim>\<open>VAD_STATE_START\<close>. Where only the frame itself is
  readable, the read runs past it.
\<close>

theorem level_is_taken_over_len_shorts:
  "mean_abs_magnitude (take (32 div 2) loud_frame_then_zeros) = 100
   \<and> calculate_audio_level loud_frame_then_zeros 32 = Inr 50
   \<and> vad_state (pvt (gdf_write_endpointer (quiet_env two_ms_config) 100 2
                        (fresh_utterance two_ms_config))) = VAD_STATE_SPEAK
   \<and> map_sum id (vad_state \<circ> pvt)
        (gdf_write (quiet_env two_ms_config) (fresh_utterance two_ms_config)
           loud_frame_then_zeros 32) = Inr VAD_STATE_START
   \<and> gdf_write (quiet_env two_ms_config) (fresh_utterance two_ms_config)
        (take (32 div 2) loud_frame_then_zeros) 32 = Inl OutOfBoundsRead"
  by code_simp

text \<open>
  C4, as amended. \<^verbatim>\<open>calculate_audio_level\<close> divides by its length argument without a
  test of its own, and \<^verbatim>\<open>gdf_write\<close> passes the frame's length on without a test
  either: the division by zero is reached by \<^verbatim>\<open>gdf_write\<close> exactly when the frame is
  delivered with the length zero.
\<close>

theorem division_by_zero_iff_empty_frame:
  "calculate_audio_level slin 0 = Inl DivisionByZero
   \<and> ((gdf_write e s data len = Inl DivisionByZero) = (len = 0))"
proof (cases "len = 0")
  case True
  then show ?thesis by (simp add: gdf_write_def calculate_audio_level_zero)
next
  case False
  then have "calculate_audio_level data (int len) \<noteq> Inl DivisionByZero"
    by (simp add: calculate_audio_level_not_zero)
  with False show ?thesis
    by (auto simp: gdf_write_def Let_def calculate_audio_level_zero split: sum.splits)
qed

text \<open>
  C4 as stated fails at a frame of length zero, written to a fresh utterance: the
  division by zero is reached.
\<close>

theorem empty_frame_divides_by_zero:
  "gdf_write (quiet_env default_config) (fresh_utterance default_config) [] 0
     = Inl DivisionByZero"
  by (simp add: gdf_write_def calculate_audio_level_zero)

section \<open>Properties of changing a tunable\<close>














section \<open>Properties of finalization\<close>

lemma gdf_stop_recognition_eq:
  "gdf_stop_recognition e s =
     s\<lparr>speech_state := AST_SPEECH_STATE_DONE,
       pvt := (pvt s)\<lparr>utterance_preendpointer_recording_file_handle := None,
                       utterance_postendpointer_recording_file_handle := None\<rparr>,
       effects := effects s @ finalize_events e s\<rparr>"
  by (cases "utterance_preendpointer_recording_file_handle (pvt s)";
      cases "utterance_postendpointer_recording_file_handle (pvt s)")
     (simp_all add: gdf_stop_recognition_def write_end_of_recognition_call_event_def
       ast_speech_change_state_def close_postendpointed_audio_recording_def
       close_preendpointed_audio_recording_def gdf_log_call_event_only_def
       gdf_log_call_event_def call_log_enabled_for_pvt_def emit_def finalize_events_def
       fclose_of_def log_line_def Let_def split: option.splits)

lemma finalize_events_closed:
  assumes "utterance_preendpointer_recording_file_handle (pvt s) = None"
    and "utterance_postendpointer_recording_file_handle (pvt s) = None"
  shows "finalize_events e s =
           log_line e s CALL_LOG_TYPE_ENDPOINTER ''pre_recording_stop''
           @ log_line e s CALL_LOG_TYPE_ENDPOINTER ''post_recording_stop''
           @ log_line e s CALL_LOG_TYPE_SESSION ''end''"
  using assms by (simp add: finalize_events_def fclose_of_def)

lemma finalize_events_not_streaming: "filter is_streaming (finalize_events e s) = []"
  by (simp add: finalize_events_def fclose_of_def log_line_def split: option.splits)

lemma finalize_events_fclose:
  "set (fclose_of (utterance_preendpointer_recording_file_handle (pvt s))) \<subseteq> set (finalize_events e s)"
  "set (fclose_of (utterance_postendpointer_recording_file_handle (pvt s))) \<subseteq> set (finalize_events e s)"
  by (auto simp: finalize_events_def)

lemma finalize_events_last:
  assumes "call_log_enabled_for_pvt e (pvt s)"
  shows "last (xs @ finalize_events e s)
           = Fprintf_call_log (call_log_file_handle (pvt s)) CALL_LOG_TYPE_SESSION ''end'' []"
  using assms by (simp add: finalize_events_def log_line_def)

text \<open>
  C9, as amended. Two calls of \<^verbatim>\<open>gdf_stop_recognition\<close> in a row close each recording
  stream that was open exactly once, in the first call, and nothing in the second; the
  records \<^verbatim>\<open>pre_recording_stop\<close>, \<^verbatim>\<open>post_recording_stop\<close> and \<^verbatim>\<open>end\<close> are written
  by each of the two calls where the call log is enabled and open, whether or not a
  recording was open.
\<close>

theorem finalize_twice:
  "effects_since s (gdf_stop_recognition e (gdf_stop_recognition e s)) =
     fclose_of (utterance_preendpointer_recording_file_handle (pvt s))
     @ log_line e s CALL_LOG_TYPE_ENDPOINTER ''pre_recording_stop''
     @ fclose_of (utterance_postendpointer_recording_file_handle (pvt s))
     @ log_line e s CALL_LOG_TYPE_ENDPOINTER ''post_recording_stop''
     @ log_line e s CALL_LOG_TYPE_SESSION ''end''
     @ log_line e s CALL_LOG_TYPE_ENDPOINTER ''pre_recording_stop''
     @ log_line e s CALL_LOG_TYPE_ENDPOINTER ''post_recording_stop''
     @ log_line e s CALL_LOG_TYPE_SESSION ''end''"
proof -
  let ?s1 = "gdf_stop_recognition e s"
  have logs: "log_line e ?s1 ty ev = log_line e s ty ev" for ty ev
    by (simp add: gdf_stop_recognition_eq log_line_def call_log_enabled_for_pvt_def
        split: option.splits)
  have closed: "utterance_preendpointer_recording_file_handle (pvt ?s1) = None"
    "utterance_postendpointer_recording_file_handle (pvt ?s1) = None"
    by (simp_all add: gdf_stop_recognition_eq)
  have second: "finalize_events e ?s1 =
      log_line e s CALL_LOG_TYPE_ENDPOINTER ''pre_recording_stop''
      @ log_line e s CALL_LOG_TYPE_ENDPOINTER ''post_recording_stop''
      @ log_line e s CALL_LOG_TYPE_SESSION ''end''"
    by (simp add: finalize_events_closed [OF closed] logs)
  have "effects (gdf_stop_recognition e ?s1) = effects ?s1 @ finalize_events e ?s1"
    by (subst gdf_stop_recognition_eq) simp
  also have "effects ?s1 = effects s @ finalize_events e s"
    by (simp add: gdf_stop_recognition_eq)
  finally have "effects_since s (gdf_stop_recognition e ?s1) =
      finalize_events e s @ finalize_events e ?s1"
    by (simp add: effects_since_def)
  then show ?thesis
    unfolding second by (simp add: finalize_events_def)
qed

text \<open>
  The theorem at a session with both recordings open (streams 1 and 2; stream 0 is the
  call log): each is closed once, and each stop record is written twice.
\<close>

theorem finalize_twice_witness:
  "effects_since recording_session
     (gdf_stop_recognition (quiet_env recording_config)
       (gdf_stop_recognition (quiet_env recording_config) recording_session))
   = [Fclose 1,
      Fprintf_call_log (Some 0) CALL_LOG_TYPE_ENDPOINTER ''pre_recording_stop'' [],
      Fclose 2,
      Fprintf_call_log (Some 0) CALL_LOG_TYPE_ENDPOINTER ''post_recording_stop'' [],
      Fprintf_call_log (Some 0) CALL_LOG_TYPE_SESSION ''end'' [],
      Fprintf_call_log (Some 0) CALL_LOG_TYPE_ENDPOINTER ''pre_recording_stop'' [],
      Fprintf_call_log (Some 0) CALL_LOG_TYPE_ENDPOINTER ''post_recording_stop'' [],
      Fprintf_call_log (Some 0) CALL_LOG_TYPE_SESSION ''end'' []]"
proof -
  let ?e = "quiet_env recording_config"
  let ?s = "recording_session"
  have pre: "fclose_of (utterance_preendpointer_recording_file_handle (pvt ?s)) = [Fclose 1]"
    by code_simp
  have post: "fclose_of (utterance_postendpointer_recording_file_handle (pvt ?s)) = [Fclose 2]"
    by code_simp
  have l1: "log_line ?e ?s CALL_LOG_TYPE_ENDPOINTER ''pre_recording_stop''
      = [Fprintf_call_log (Some 0) CALL_LOG_TYPE_ENDPOINTER ''pre_recording_stop'' []]"
    by code_simp
  have l2: "log_line ?e ?s CALL_LOG_TYPE_ENDPOINTER ''post_recording_stop''
      = [Fprintf_call_log (Some 0) CALL_LOG_TYPE_ENDPOINTER ''post_recording_stop'' []]"
    by code_simp
  have l3: "log_line ?e ?s CALL_LOG_TYPE_SESSION ''end''
      = [Fprintf_call_log (Some 0) CALL_LOG_TYPE_SESSION ''end'' []]"
    by code_simp
  show ?thesis
    unfolding finalize_twice [of ?s ?e] pre post l1 l2 l3 by simp
qed

text \<open>
  C9 as stated fails at a fresh utterance in which no recording was ever opened (the
  only \<^verbatim>\<open>fopen\<close> is the call log's): two calls of \<^verbatim>\<open>gdf_stop_recognition\<close> write
  each recording stop record twice.
\<close>

theorem finalize_twice_logs_stop_twice:
  "utterance_preendpointer_recording_file_handle (pvt (fresh_utterance default_config)) = None
   \<and> utterance_postendpointer_recording_file_handle (pvt (fresh_utterance default_config)) = None
   \<and> filter is_Fopen (effects (fresh_utterance default_config))
       = [Fopen (Log_related_filename ''/var/log/dialogflow/'' ''0000_0x1'' ''log'' None ''jsonl'')
            (Some 0)]
   \<and> effects_since (fresh_utterance default_config)
        (gdf_stop_recognition (quiet_env default_config)
          (gdf_stop_recognition (quiet_env default_config) (fresh_utterance default_config)))
       = [Fprintf_call_log (Some 0) CALL_LOG_TYPE_ENDPOINTER ''pre_recording_stop'' [],
          Fprintf_call_log (Some 0) CALL_LOG_TYPE_ENDPOINTER ''post_recording_stop'' [],
          Fprintf_call_log (Some 0) CALL_LOG_TYPE_SESSION ''end'' [],
          Fprintf_call_log (Some 0) CALL_LOG_TYPE_ENDPOINTER ''pre_recording_stop'' [],
          Fprintf_call_log (Some 0) CALL_LOG_TYPE_ENDPOINTER ''post_recording_stop'' [],
          Fprintf_call_log (Some 0) CALL_LOG_TYPE_SESSION ''end'' []]"
  by code_simp

section \<open>Properties of starting an utterance with an event\<close>

lemma gdf_start_reset_keeps:
  "utterance_preendpointer_recording_file_handle (pvt (gdf_start_reset e s))
     = utterance_preendpointer_recording_file_handle (pvt s)"
  "utterance_postendpointer_recording_file_handle (pvt (gdf_start_reset e s))
     = utterance_postendpointer_recording_file_handle (pvt s)"
  "speech_state (gdf_start_reset e s) = speech_state s"
  by (simp_all add: gdf_start_reset_def start_call_log_def calculate_log_path_def
      calculate_log_file_basename_def log_endpointer_start_event_def gdf_log_call_event_def
      fopen_w_def emit_def Let_def split: option.splits)

lemma gdf_start_reset_effects:
  "\<exists>xs. effects (gdf_start_reset e s) = effects s @ xs \<and> filter is_streaming xs = []"
  by (simp add: gdf_start_reset_def start_call_log_def calculate_log_path_def
      calculate_log_file_basename_def log_endpointer_start_event_def gdf_log_call_event_def
      fopen_w_def emit_def Let_def split: option.splits)

text \<open>
  C7, as amended. When an event is set as \<^verbatim>\<open>gdf_start\<close> runs, the event is sent to the
  backend with \<^verbatim>\<open>df_recognize_event\<close> and no audio is streamed. When that call
  succeeds the utterance is finalized at once: the speech state is
  \<^verbatim>\<open>AST_SPEECH_STATE_DONE\<close>, the recordings that were open are closed and none is left
  open, and where the call log is enabled and open the \<^verbatim>\<open>end\<close> record is the last
  thing written. When the call fails the speech state is
  \<^verbatim>\<open>AST_SPEECH_STATE_NOT_READY\<close>, the recording streams are left as they were, and
  nothing is done after the failed call.
\<close>

theorem primed_start_finalizes_on_success_only:
  assumes "event (pvt s) \<noteq> []"
  shows "Df_recognize_event (event (pvt s)) (language (pvt s))
           \<in> set (effects_since s (gdf_start e s))
       \<and> filter is_streaming (effects_since s (gdf_start e s)) = []
       \<and> (df_recognize_event_rc e = 0 \<longrightarrow>
            speech_state (gdf_start e s) = AST_SPEECH_STATE_DONE
            \<and> utterance_preendpointer_recording_file_handle (pvt (gdf_start e s)) = None
            \<and> utterance_postendpointer_recording_file_handle (pvt (gdf_start e s)) = None
            \<and> set (fclose_of (utterance_preendpointer_recording_file_handle (pvt s)))
                 \<subseteq> set (effects_since s (gdf_start e s))
            \<and> set (fclose_of (utterance_postendpointer_recording_file_handle (pvt s)))
                 \<subseteq> set (effects_since s (gdf_start e s))
            \<and> (call_log_enabled_for_pvt e (pvt (gdf_start e s)) \<longrightarrow>
                 last (effects (gdf_start e s))
                   = Fprintf_call_log (call_log_file_handle (pvt (gdf_start e s)))
                       CALL_LOG_TYPE_SESSION ''end'' []))
       \<and> (df_recognize_event_rc e \<noteq> 0 \<longrightarrow>
            speech_state (gdf_start e s) = AST_SPEECH_STATE_NOT_READY
            \<and> utterance_preendpointer_recording_file_handle (pvt (gdf_start e s))
                = utterance_preendpointer_recording_file_handle (pvt s)
            \<and> utterance_postendpointer_recording_file_handle (pvt (gdf_start e s))
                = utterance_postendpointer_recording_file_handle (pvt s)
            \<and> last (effects (gdf_start e s))
                = Df_recognize_event (event (pvt s)) (language (pvt s)))"
proof -
  let ?ev = "Df_recognize_event (event (pvt s)) (language (pvt s))"
  let ?s4 = "gdf_start_reset e s"
  let ?s5 = "emit ?ev ?s4"
  from gdf_start_reset_effects [of e s] obtain xs where
    xs: "effects ?s4 = effects s @ xs" and quiet: "filter is_streaming xs = []"
    by blast
  have s5: "effects ?s5 = effects s @ xs @ [?ev]" by (simp add: emit_def xs)
  have h5: "utterance_preendpointer_recording_file_handle (pvt ?s5)
              = utterance_preendpointer_recording_file_handle (pvt s)"
    "utterance_postendpointer_recording_file_handle (pvt ?s5)
              = utterance_postendpointer_recording_file_handle (pvt s)"
    by (simp_all add: emit_def gdf_start_reset_keeps)
  show ?thesis
  proof (cases "df_recognize_event_rc e = 0")
    case True
    then have eq: "gdf_start e s = gdf_stop_recognition e ?s5"
      using assms by (simp add: gdf_start_def Let_def)
    have eff: "effects (gdf_start e s) = effects s @ xs @ [?ev] @ finalize_events e ?s5"
      unfolding eq by (simp add: gdf_stop_recognition_eq s5)
    then have since: "effects_since s (gdf_start e s) = xs @ [?ev] @ finalize_events e ?s5"
      by (simp add: effects_since_def)
    have enabled: "call_log_enabled_for_pvt e (pvt (gdf_start e s))
                     = call_log_enabled_for_pvt e (pvt ?s5)"
      unfolding eq
      by (simp add: gdf_stop_recognition_eq call_log_enabled_for_pvt_def split: option.splits)
    have handle: "call_log_file_handle (pvt (gdf_start e s)) = call_log_file_handle (pvt ?s5)"
      unfolding eq by (simp add: gdf_stop_recognition_eq)
    have last_end: "call_log_enabled_for_pvt e (pvt (gdf_start e s)) \<Longrightarrow>
        last (effects (gdf_start e s))
          = Fprintf_call_log (call_log_file_handle (pvt (gdf_start e s)))
              CALL_LOG_TYPE_SESSION ''end'' []"
      unfolding enabled handle using finalize_events_last [of e ?s5 "effects s @ xs @ [?ev]"]
      by (simp add: eff)
    have closes: "set (fclose_of (utterance_preendpointer_recording_file_handle (pvt s)))
                 \<subseteq> set (effects_since s (gdf_start e s))"
      "set (fclose_of (utterance_postendpointer_recording_file_handle (pvt s)))
                 \<subseteq> set (effects_since s (gdf_start e s))"
      using finalize_events_fclose [of ?s5 e] unfolding since h5 by auto
    have state: "speech_state (gdf_start e s) = AST_SPEECH_STATE_DONE"
      "utterance_preendpointer_recording_file_handle (pvt (gdf_start e s)) = None"
      "utterance_postendpointer_recording_file_handle (pvt (gdf_start e s)) = None"
      unfolding eq by (simp_all add: gdf_stop_recognition_eq)
    have "?ev \<in> set (effects_since s (gdf_start e s))" unfolding since by simp
    moreover have "filter is_streaming (effects_since s (gdf_start e s)) = []"
      unfolding since by (simp add: quiet finalize_events_not_streaming)
    ultimately show ?thesis using True state closes last_end by simp
  next
    case False
    then have eq: "gdf_start e s = ast_speech_change_state AST_SPEECH_STATE_NOT_READY ?s5"
      using assms by (simp add: gdf_start_def Let_def)
    have eff: "effects (gdf_start e s) = effects s @ xs @ [?ev]"
      unfolding eq by (simp add: ast_speech_change_state_def s5)
    then have since: "effects_since s (gdf_start e s) = xs @ [?ev]"
      by (simp add: effects_since_def)
    have state: "speech_state (gdf_start e s) = AST_SPEECH_STATE_NOT_READY"
      "utterance_preendpointer_recording_file_handle (pvt (gdf_start e s))
                = utterance_preendpointer_recording_file_handle (pvt s)"
      "utterance_postendpointer_recording_file_handle (pvt (gdf_start e s))
                = utterance_postendpointer_recording_file_handle (pvt s)"
      unfolding eq by (simp_all add: ast_speech_change_state_def h5)
    have "?ev \<in> set (effects_since s (gdf_start e s))" unfolding since by simp
    moreover have "filter is_streaming (effects_since s (gdf_start e s)) = []"
      unfolding since by (simp add: quiet)
    moreover have "last (effects (gdf_start e s)) = ?ev" by (simp add: eff)
    ultimately show ?thesis using False state by simp
  qed
qed

text \<open>
  The theorem at the session primed with \<^verbatim>\<open>event:welcome\<close>: finalized when the
  backend call succeeds, not ready when it fails.
\<close>

theorem primed_start_finalizes_on_success_only_witness:
  "event (pvt primed_session) \<noteq> []
   \<and> speech_state (gdf_start (quiet_env default_config) primed_session) = AST_SPEECH_STATE_DONE
   \<and> last (effects (gdf_start (quiet_env default_config) primed_session))
       = Fprintf_call_log (Some 0) CALL_LOG_TYPE_SESSION ''end'' []
   \<and> speech_state (gdf_start failing_event_env primed_session) = AST_SPEECH_STATE_NOT_READY
   \<and> last (effects (gdf_start failing_event_env primed_session))
       = Df_recognize_event ''welcome'' []"
proof -
  have ev: "event (pvt primed_session) \<noteq> []" by code_simp
  have ok: "df_recognize_event_rc (quiet_env default_config) = 0" by code_simp
  have bad: "df_recognize_event_rc failing_event_env \<noteq> 0" by code_simp
  have enabled: "call_log_enabled_for_pvt (quiet_env default_config)
      (pvt (gdf_start (quiet_env default_config) primed_session))" by code_simp
  have handle: "call_log_file_handle
      (pvt (gdf_start (quiet_env default_config) primed_session)) = Some 0" by code_simp
  have name: "event (pvt primed_session) = ''welcome''" "language (pvt primed_session) = []"
    by code_simp+
  from primed_start_finalizes_on_success_only [OF ev, of "quiet_env default_config"]
    ok enabled handle
  have a: "speech_state (gdf_start (quiet_env default_config) primed_session)
             = AST_SPEECH_STATE_DONE"
    "last (effects (gdf_start (quiet_env default_config) primed_session))
       = Fprintf_call_log (Some 0) CALL_LOG_TYPE_SESSION ''end'' []"
    by simp_all
  from primed_start_finalizes_on_success_only [OF ev, of failing_event_env] bad name
  have b: "speech_state (gdf_start failing_event_env primed_session)
             = AST_SPEECH_STATE_NOT_READY"
    "last (effects (gdf_start failing_event_env primed_session))
       = Df_recognize_event ''welcome'' []"
    by simp_all
  from ev a b show ?thesis by blast
qed

text \<open>
  C7 as stated fails at the session primed with \<^verbatim>\<open>event:welcome\<close> when
  \<^verbatim>\<open>df_recognize_event\<close> fails: the speech state is not the terminal one, and with the
  call log enabled and open no \<^verbatim>\<open>end\<close> record is written: after the four backend
  calls of \<^verbatim>\<open>gdf_create\<close>, the records written are the two start records, and the
  last thing done is the backend call.
\<close>

theorem primed_start_failure_is_not_finalized:
  "is_grammar_old_style_event ''event:welcome''
   \<and> call_log_enabled_for_pvt failing_event_env (pvt (gdf_start failing_event_env primed_session))
   \<and> speech_state (gdf_start failing_event_env primed_session) = AST_SPEECH_STATE_NOT_READY
   \<and> speech_state (gdf_start failing_event_env primed_session) \<noteq> AST_SPEECH_STATE_DONE
   \<and> effects (gdf_start failing_event_env primed_session)
       = [Df_create_session, Df_set_auth_key [], Df_set_endpoint [], Df_set_session_id ''0x1'',
          Ast_mkdir ''/var/log/dialogflow/'',
          Fopen (Log_related_filename ''/var/log/dialogflow/'' ''0000_0x1'' ''log'' None ''jsonl'')
            (Some 0),
          Fprintf_call_log (Some 0) CALL_LOG_TYPE_SESSION ''start''
            [(''event'', Text ''welcome''), (''language'', Text []), (''project_id'', Text []),
             (''logical_agent_name'', Text []), (''utterance'', Decimal 1),
             (''context'', Text []), (''application'', Text ''unknown'')],
          Fprintf_call_log (Some 0) CALL_LOG_TYPE_ENDPOINTER ''start''
            [(''voice_threshold'', Decimal 512), (''voice_duration'', Decimal 40),
             (''silence_duration'', Decimal 500)],
          Df_recognize_event ''welcome'' []]"
  by code_simp

section \<open>Properties of a failing exchange\<close>

subsection \<open>What recording leaves alone\<close>

lemma open_pre_log_fields:
  "log_fields (snd (open_preendpointed_recording_file e s)) = log_fields s"
  by (simp add: open_preendpointed_recording_file_def fopen_w_def gdf_log_call_event_def
      emit_def log_fields_def Let_def)

lemma open_post_log_fields:
  "log_fields (snd (open_postendpointed_recording_file e s)) = log_fields s"
  by (simp add: open_postendpointed_recording_file_def fopen_w_def gdf_log_call_event_def
      emit_def log_fields_def Let_def)

lemma open_pre_effects:
  "\<exists>ys. effects (snd (open_preendpointed_recording_file e s)) = effects s @ ys"
  by (simp add: open_preendpointed_recording_file_def fopen_w_def gdf_log_call_event_def
      emit_def Let_def)

lemma open_post_effects:
  "\<exists>ys. effects (snd (open_postendpointed_recording_file e s)) = effects s @ ys"
  by (simp add: open_postendpointed_recording_file_def fopen_w_def gdf_log_call_event_def
      emit_def Let_def)

lemma open_pre_post_handle:
  "utterance_postendpointer_recording_file_handle (pvt (snd (open_preendpointed_recording_file e s)))
     = utterance_postendpointer_recording_file_handle (pvt s)"
  by (simp add: open_preendpointed_recording_file_def fopen_w_def gdf_log_call_event_def
      emit_def Let_def)

lemma open_post_pre_handle:
  "utterance_preendpointer_recording_file_handle (pvt (snd (open_postendpointed_recording_file e s)))
     = utterance_preendpointer_recording_file_handle (pvt s)"
  by (simp add: open_postendpointed_recording_file_def fopen_w_def gdf_log_call_event_def
      emit_def Let_def)

lemma record_pre_log_fields:
  "log_fields (record_preendpointed_audio e mulaw en cur att s) = log_fields s"
  using open_pre_log_fields [of e s]
  by (auto simp: record_preendpointed_audio_def Let_def log_fields_def emit_def split: prod.splits)

lemma record_post_log_fields:
  "log_fields (record_postendpointed_audio e mulaw vad en cur att s) = log_fields s"
  using open_post_log_fields [of e s]
  by (auto simp: record_postendpointed_audio_def Let_def log_fields_def emit_def split: prod.splits)

lemma record_pre_effects:
  "\<exists>ys. effects (record_preendpointed_audio e mulaw en cur att s) = effects s @ ys"
  using open_pre_effects [of e s]
  by (auto simp: record_preendpointed_audio_def Let_def emit_def split: prod.splits)

lemma record_post_effects:
  "\<exists>ys. effects (record_postendpointed_audio e mulaw vad en cur att s) = effects s @ ys"
  using open_post_effects [of e s]
  by (auto simp: record_postendpointed_audio_def Let_def emit_def split: prod.splits)

lemma record_pre_handles:
  "utterance_postendpointer_recording_file_handle (pvt (record_preendpointed_audio e mulaw en cur att s))
     = utterance_postendpointer_recording_file_handle (pvt s)"
  "cur \<or> att \<Longrightarrow>
   utterance_preendpointer_recording_file_handle (pvt (record_preendpointed_audio e mulaw en cur att s))
     = utterance_preendpointer_recording_file_handle (pvt s)"
  using open_pre_post_handle [of e s]
  by (auto simp: record_preendpointed_audio_def Let_def emit_def split: prod.splits)

lemma record_post_handles:
  "utterance_preendpointer_recording_file_handle (pvt (record_postendpointed_audio e mulaw vad en cur att s))
     = utterance_preendpointer_recording_file_handle (pvt s)"
  "cur \<or> att \<Longrightarrow>
   utterance_postendpointer_recording_file_handle (pvt (record_postendpointed_audio e mulaw vad en cur att s))
     = utterance_postendpointer_recording_file_handle (pvt s)"
  using open_post_pre_handle [of e s]
  by (auto simp: record_postendpointed_audio_def Let_def emit_def split: prod.splits)

lemma maybe_record_log_fields: "log_fields (maybe_record_audio e mulaw vad s) = log_fields s"
  by (simp add: maybe_record_audio_def Let_def record_pre_log_fields record_post_log_fields)

lemma maybe_record_effects:
  "\<exists>ys. effects (maybe_record_audio e mulaw vad s) = effects s @ ys"
proof -
  obtain en1 c1 a1 en2 c2 a2 where
    eq: "maybe_record_audio e mulaw vad s =
      record_postendpointed_audio e mulaw vad en2 c2 a2
        (record_preendpointed_audio e mulaw en1 c1 a1 s)"
    by (simp add: maybe_record_audio_def Let_def)
  from record_pre_effects [of e mulaw en1 c1 a1 s] obtain ys where
    "effects (record_preendpointed_audio e mulaw en1 c1 a1 s) = effects s @ ys" by blast
  moreover from record_post_effects
    [of e mulaw vad en2 c2 a2 "record_preendpointed_audio e mulaw en1 c1 a1 s"]
  obtain zs where
    "effects (record_postendpointed_audio e mulaw vad en2 c2 a2
        (record_preendpointed_audio e mulaw en1 c1 a1 s))
      = effects (record_preendpointed_audio e mulaw en1 c1 a1 s) @ zs" by blast
  ultimately show ?thesis unfolding eq by simp
qed

lemma maybe_record_keeps_open_handles:
  assumes "call_log_path (pvt s) \<noteq> []"
  shows "utterance_preendpointer_recording_file_handle (pvt s) = Some h \<Longrightarrow>
           utterance_preendpointer_recording_file_handle (pvt (maybe_record_audio e mulaw vad s))
             = Some h"
    and "utterance_postendpointer_recording_file_handle (pvt s) = Some h \<Longrightarrow>
           utterance_postendpointer_recording_file_handle (pvt (maybe_record_audio e mulaw vad s))
             = Some h"
proof -
  let ?pre = "\<lambda>en cur att. record_preendpointed_audio e mulaw en cur att s"
  {
    assume h: "utterance_preendpointer_recording_file_handle (pvt s) = Some h"
    show "utterance_preendpointer_recording_file_handle (pvt (maybe_record_audio e mulaw vad s))
             = Some h"
      using assms h
      by (auto simp: maybe_record_audio_def Let_def record_post_handles(1) record_pre_handles(2)
           record_preendpointed_audio_def emit_def split: option.splits)
  }
  {
    assume h: "utterance_postendpointer_recording_file_handle (pvt s) = Some h"
    show "utterance_postendpointer_recording_file_handle (pvt (maybe_record_audio e mulaw vad s))
             = Some h"
      using assms h
      by (auto simp: maybe_record_audio_def Let_def record_post_handles(2) record_pre_handles(1)
           record_postendpointed_audio_def emit_def split: option.splits)
  }
qed

lemma effects_sinceI: "effects s' = effects s @ xs \<Longrightarrow> effects_since s s' = xs"
  by (simp add: effects_since_def)

lemma endpointer_keeps:
  "log_fields (gdf_write_endpointer e a d s) = log_fields s"
  "utterance_preendpointer_recording_file_handle (pvt (gdf_write_endpointer e a d s))
     = utterance_preendpointer_recording_file_handle (pvt s)"
  "utterance_postendpointer_recording_file_handle (pvt (gdf_write_endpointer e a d s))
     = utterance_postendpointer_recording_file_handle (pvt s)"
  by (simp_all add: gdf_write_endpointer_def store_vad_def gdf_log_call_event_only_def
      gdf_log_call_event_def emit_def log_fields_def Let_def)

lemma endpointer_effects:
  "\<exists>xs. effects (gdf_write_endpointer e a d s) = effects s @ xs"
  by (simp add: gdf_write_endpointer_def store_vad_def gdf_log_call_event_only_def
      gdf_log_call_event_def emit_def Let_def)

lemma log_line_cong:
  "log_fields s' = log_fields s \<Longrightarrow> log_line e s' ty ev = log_line e s ty ev"
  by (simp add: log_line_def log_fields_def call_log_enabled_for_pvt_def split: option.splits)

lemma enabled_cong:
  "log_fields s' = log_fields s \<Longrightarrow>
     call_log_enabled_for_pvt e (pvt s') = call_log_enabled_for_pvt e (pvt s)"
  by (simp add: log_fields_def call_log_enabled_for_pvt_def split: option.splits)

lemma log_fields_emit: "log_fields (emit x s) = log_fields s"
  by (simp add: log_fields_def emit_def)

lemma end_line_in_finalize_events:
  assumes "call_log_enabled_for_pvt e (pvt s)"
  shows "Fprintf_call_log (call_log_file_handle (pvt s)) CALL_LOG_TYPE_SESSION ''end'' []
           \<in> set (finalize_events e s)"
  using assms by (simp add: finalize_events_def log_line_def)

lemma forward_outside_start:
  assumes "vad_state (pvt s) \<noteq> VAD_STATE_START"
  shows "\<exists>s4 zs. effects s4 = effects s @ zs
           \<and> log_fields s4 = log_fields s
           \<and> (call_log_path (pvt s) \<noteq> [] \<longrightarrow>
                (\<forall>h. utterance_preendpointer_recording_file_handle (pvt s) = Some h \<longrightarrow>
                      utterance_preendpointer_recording_file_handle (pvt s4) = Some h)
                \<and> (\<forall>h. utterance_postendpointer_recording_file_handle (pvt s) = Some h \<longrightarrow>
                      utterance_postendpointer_recording_file_handle (pvt s4) = Some h))
           \<and> gdf_write_forward e data n s =
                (if df_write_audio_rc e = DF_STATE_FINISHED \<or> df_write_audio_rc e = DF_STATE_ERROR
                 then gdf_stop_recognition e (emit Df_stop_recognition s4) else s4)"
proof -
  let ?mulaw = "map (AST_LIN2MU e) (take n data)"
  let ?s2 = "maybe_record_audio e ?mulaw (vad_state (pvt s)) s"
  let ?s3 = "emit (Df_write_audio ?mulaw) ?s2"
  let ?s4 = "if AST_SPEECH_SPOKE \<notin> speech_flags ?s3 \<and> df_get_response_count_rc e > 0
             then ?s3\<lparr>speech_flags :=
                       insert AST_SPEECH_SPOKE (insert AST_SPEECH_QUIET (speech_flags ?s3))\<rparr>
             else ?s3"
  from maybe_record_effects [of e ?mulaw "vad_state (pvt s)" s] obtain ys where
    ys: "effects ?s2 = effects s @ ys" by blast
  have eff: "effects ?s4 = effects s @ ys @ [Df_write_audio ?mulaw]"
    by (simp add: emit_def ys)
  have lf: "log_fields ?s4 = log_fields s"
    using maybe_record_log_fields [of e ?mulaw "vad_state (pvt s)" s]
    by (simp add: log_fields_def emit_def)
  have pv: "pvt ?s4 = pvt ?s2" by (simp add: emit_def)
  have keep: "call_log_path (pvt s) \<noteq> [] \<longrightarrow>
                (\<forall>h. utterance_preendpointer_recording_file_handle (pvt s) = Some h \<longrightarrow>
                      utterance_preendpointer_recording_file_handle (pvt ?s4) = Some h)
                \<and> (\<forall>h. utterance_postendpointer_recording_file_handle (pvt s) = Some h \<longrightarrow>
                      utterance_postendpointer_recording_file_handle (pvt ?s4) = Some h)"
    unfolding pv using maybe_record_keeps_open_handles [of s _ e ?mulaw "vad_state (pvt s)"]
    by blast
  have fw: "gdf_write_forward e data n s =
                (if df_write_audio_rc e = DF_STATE_FINISHED \<or> df_write_audio_rc e = DF_STATE_ERROR
                 then gdf_stop_recognition e (emit Df_stop_recognition ?s4) else ?s4)"
    using assms by (simp add: gdf_write_forward_def Let_def)
  from eff lf keep fw show ?thesis by blast
qed

lemma start_recognition_fails:
  assumes "vad_state (pvt s) = VAD_STATE_SPEAK" and "orig = VAD_STATE_START"
    and "df_start_recognition_rc e \<noteq> 0"
  shows "gdf_write_start_recognition e orig s =
           gdf_stop_recognition e (emit (Df_start_recognition (language (pvt s))) s)"
  using assms by (simp add: gdf_write_start_recognition_def Let_def)

lemma start_recognition_other:
  assumes "\<not> (vad_state (pvt s) = VAD_STATE_SPEAK \<and> orig = VAD_STATE_START
              \<and> df_start_recognition_rc e \<noteq> 0)"
  shows "\<exists>ys. effects (gdf_write_start_recognition e orig s) = effects s @ ys
           \<and> pvt (gdf_write_start_recognition e orig s) = pvt s
           \<and> speech_state (gdf_write_start_recognition e orig s) = speech_state s"
  using assms by (auto simp: gdf_write_start_recognition_def Let_def emit_def)

lemma start_recognition_summary:
  "\<exists>ys. effects (gdf_write_start_recognition e orig s) = effects s @ ys
     \<and> log_fields (gdf_write_start_recognition e orig s)
         = (if vad_state (pvt s) = VAD_STATE_SPEAK \<and> orig = VAD_STATE_START
               \<and> df_start_recognition_rc e \<noteq> 0
            then (AST_SPEECH_STATE_DONE, snd (log_fields s)) else log_fields s)
     \<and> (\<forall>h. utterance_preendpointer_recording_file_handle (pvt s) = Some h \<longrightarrow>
           utterance_preendpointer_recording_file_handle
             (pvt (gdf_write_start_recognition e orig s)) = Some h
           \<or> Fclose h \<in> set ys)
     \<and> (\<forall>h. utterance_postendpointer_recording_file_handle (pvt s) = Some h \<longrightarrow>
           utterance_postendpointer_recording_file_handle
             (pvt (gdf_write_start_recognition e orig s)) = Some h
           \<or> Fclose h \<in> set ys)
     \<and> (vad_state (pvt s) = VAD_STATE_SPEAK \<and> orig = VAD_STATE_START
          \<and> df_start_recognition_rc e \<noteq> 0 \<longrightarrow>
          set (fclose_of (utterance_preendpointer_recording_file_handle (pvt s))) \<subseteq> set ys
          \<and> set (fclose_of (utterance_postendpointer_recording_file_handle (pvt s))) \<subseteq> set ys
          \<and> (call_log_enabled_for_pvt e (pvt s) \<longrightarrow>
               Fprintf_call_log (call_log_file_handle (pvt s)) CALL_LOG_TYPE_SESSION ''end'' []
                 \<in> set ys))"
proof (cases "vad_state (pvt s) = VAD_STATE_SPEAK \<and> orig = VAD_STATE_START
               \<and> df_start_recognition_rc e \<noteq> 0")
  case True
  let ?s' = "emit (Df_start_recognition (language (pvt s))) s"
  let ?ys = "Df_start_recognition (language (pvt s)) # finalize_events e ?s'"
  have eq: "gdf_write_start_recognition e orig s = gdf_stop_recognition e ?s'"
    using True by (simp add: start_recognition_fails)
  have pv: "pvt ?s' = pvt s" by (simp add: emit_def)
  have eff: "effects (gdf_write_start_recognition e orig s) = effects s @ ?ys"
    unfolding eq by (simp add: gdf_stop_recognition_eq emit_def)
  have lf: "log_fields (gdf_write_start_recognition e orig s)
              = (AST_SPEECH_STATE_DONE, snd (log_fields s))"
    unfolding eq by (simp add: gdf_stop_recognition_eq log_fields_def emit_def)
  have c1: "set (fclose_of (utterance_preendpointer_recording_file_handle (pvt s))) \<subseteq> set ?ys"
    using finalize_events_fclose(1) [of ?s' e] unfolding pv by auto
  have c2: "set (fclose_of (utterance_postendpointer_recording_file_handle (pvt s))) \<subseteq> set ?ys"
    using finalize_events_fclose(2) [of ?s' e] unfolding pv by auto
  have c3: "call_log_enabled_for_pvt e (pvt s) \<longrightarrow>
               Fprintf_call_log (call_log_file_handle (pvt s)) CALL_LOG_TYPE_SESSION ''end'' []
                 \<in> set ?ys"
    using end_line_in_finalize_events [of e ?s'] unfolding pv by simp
  have h1: "\<forall>h. utterance_preendpointer_recording_file_handle (pvt s) = Some h \<longrightarrow>
           utterance_preendpointer_recording_file_handle
             (pvt (gdf_write_start_recognition e orig s)) = Some h
           \<or> Fclose h \<in> set ?ys"
    using c1 by (auto simp: fclose_of_def)
  have h2: "\<forall>h. utterance_postendpointer_recording_file_handle (pvt s) = Some h \<longrightarrow>
           utterance_postendpointer_recording_file_handle
             (pvt (gdf_write_start_recognition e orig s)) = Some h
           \<or> Fclose h \<in> set ?ys"
    using c2 by (auto simp: fclose_of_def)
  from True eff lf h1 h2 c1 c2 c3 show ?thesis by (intro exI [of _ ?ys]) simp
next
  case False
  from start_recognition_other [OF False] obtain ys where
    "effects (gdf_write_start_recognition e orig s) = effects s @ ys"
    "pvt (gdf_write_start_recognition e orig s) = pvt s"
    "speech_state (gdf_write_start_recognition e orig s) = speech_state s"
    by blast
  with False show ?thesis by (intro exI [of _ ys]) (auto simp: log_fields_def)
qed

text \<open>
  What holds on both paths. When \<^verbatim>\<open>gdf_write\<close> returns and either the frame took the
  endpointer from \<^verbatim>\<open>VAD_STATE_START\<close> to \<^verbatim>\<open>VAD_STATE_SPEAK\<close> and
  \<^verbatim>\<open>df_start_recognition\<close> failed, or the frame was sent and \<^verbatim>\<open>df_write_audio\<close>
  reported \<^verbatim>\<open>DF_STATE_FINISHED\<close> or \<^verbatim>\<open>DF_STATE_ERROR\<close>, then
  \<^verbatim>\<open>gdf_stop_recognition\<close> has run in that call: the speech state is
  \<^verbatim>\<open>AST_SPEECH_STATE_DONE\<close>; after a failed start the recordings that were open on
  entry have been closed; after a terminal status no recording is left open in the
  session, and with a non-empty call log path the recordings that were open on entry
  have been closed; and where the call log is enabled and open the \<^verbatim>\<open>end\<close> record has
  been written (after a terminal status it is the last thing written). It does not say
  that no recording is open after a failed start: see below.
\<close>

lemma exchange_failure_finalizes:
  assumes run: "gdf_write e s data len = Inr s'"
    and failure:
      "(vad_state (pvt s) = VAD_STATE_START \<and> vad_state (pvt s') = VAD_STATE_SPEAK
          \<and> df_start_recognition_rc e \<noteq> 0)
       \<or> (vad_state (pvt s') \<noteq> VAD_STATE_START
          \<and> (df_write_audio_rc e = DF_STATE_FINISHED \<or> df_write_audio_rc e = DF_STATE_ERROR))"
  shows "speech_state s' = AST_SPEECH_STATE_DONE
       \<and> (vad_state (pvt s) = VAD_STATE_START \<and> vad_state (pvt s') = VAD_STATE_SPEAK
            \<and> df_start_recognition_rc e \<noteq> 0 \<longrightarrow>
            set (fclose_of (utterance_preendpointer_recording_file_handle (pvt s)))
              \<subseteq> set (effects_since s s')
            \<and> set (fclose_of (utterance_postendpointer_recording_file_handle (pvt s)))
              \<subseteq> set (effects_since s s'))
       \<and> (vad_state (pvt s') \<noteq> VAD_STATE_START
            \<and> (df_write_audio_rc e = DF_STATE_FINISHED \<or> df_write_audio_rc e = DF_STATE_ERROR) \<longrightarrow>
            utterance_preendpointer_recording_file_handle (pvt s') = None
            \<and> utterance_postendpointer_recording_file_handle (pvt s') = None
            \<and> (call_log_path (pvt s) \<noteq> [] \<longrightarrow>
                 set (fclose_of (utterance_preendpointer_recording_file_handle (pvt s)))
                   \<subseteq> set (effects_since s s')
                 \<and> set (fclose_of (utterance_postendpointer_recording_file_handle (pvt s)))
                   \<subseteq> set (effects_since s s'))
            \<and> (call_log_enabled_for_pvt e (pvt s) \<longrightarrow>
                 last (effects s')
                   = Fprintf_call_log (call_log_file_handle (pvt s)) CALL_LOG_TYPE_SESSION ''end'' []))
       \<and> (call_log_enabled_for_pvt e (pvt s) \<longrightarrow>
            Fprintf_call_log (call_log_file_handle (pvt s)) CALL_LOG_TYPE_SESSION ''end'' []
              \<in> set (effects_since s s'))"
proof -
  let ?pre = "\<lambda>x. utterance_preendpointer_recording_file_handle (pvt x)"
  let ?post = "\<lambda>x. utterance_postendpointer_recording_file_handle (pvt x)"
  let ?end_line = "Fprintf_call_log (call_log_file_handle (pvt s)) CALL_LOG_TYPE_SESSION ''end'' []"
  let ?terminal = "df_write_audio_rc e = DF_STATE_FINISHED \<or> df_write_audio_rc e = DF_STATE_ERROR"
  let ?A = "vad_state (pvt s) = VAD_STATE_START \<and> vad_state (pvt s') = VAD_STATE_SPEAK
            \<and> df_start_recognition_rc e \<noteq> 0"
  from run obtain avg_level where
    s': "s' = gdf_write_forward e data (len div 2)
               (gdf_write_start_recognition e (vad_state (pvt s))
                 (gdf_write_endpointer e avg_level (int (len div 2 div 8)) s))"
    by (auto simp: gdf_write_def Let_def split: sum.splits)
  define s0 where "s0 = gdf_write_endpointer e avg_level (int (len div 2 div 8)) s"
  define s1 where "s1 = gdf_write_start_recognition e (vad_state (pvt s)) s0"
  have s'1: "s' = gdf_write_forward e data (len div 2) s1"
    by (simp add: s' s1_def s0_def)
  \<comment> \<open>the endpointer\<close>
  have lf0: "log_fields s0 = log_fields s" and pre0: "?pre s0 = ?pre s" and post0: "?post s0 = ?post s"
    by (simp_all add: s0_def endpointer_keeps)
  obtain xs where xs: "effects s0 = effects s @ xs"
    using endpointer_effects [of e avg_level "int (len div 2 div 8)" s] by (auto simp: s0_def)
  have vad1: "vad_state (pvt s1) = vad_state (pvt s0)"
    using vad_fields_start_recognition [of e "vad_state (pvt s)" s0]
    by (simp add: s1_def vad_fields_def)
  have vad': "vad_state (pvt s') = vad_state (pvt s1)"
    using vad_fields_forward [of e data "len div 2" s1] by (simp add: s'1 vad_fields_def)
  have en0: "call_log_enabled_for_pvt e (pvt s0) = call_log_enabled_for_pvt e (pvt s)"
    using lf0 by (rule enabled_cong)
  have clh0: "call_log_file_handle (pvt s0) = call_log_file_handle (pvt s)"
    and path0: "call_log_path (pvt s0) = call_log_path (pvt s)"
    using lf0 by (simp_all add: log_fields_def)
  \<comment> \<open>opening the exchange\<close>
  from start_recognition_summary [of e "vad_state (pvt s)" s0] obtain ys where
    ys: "effects s1 = effects s0 @ ys"
    and lf1: "log_fields s1
         = (if vad_state (pvt s0) = VAD_STATE_SPEAK \<and> vad_state (pvt s) = VAD_STATE_START
               \<and> df_start_recognition_rc e \<noteq> 0
            then (AST_SPEECH_STATE_DONE, snd (log_fields s0)) else log_fields s0)"
    and keep_pre: "\<forall>h. ?pre s0 = Some h \<longrightarrow> ?pre s1 = Some h \<or> Fclose h \<in> set ys"
    and keep_post: "\<forall>h. ?post s0 = Some h \<longrightarrow> ?post s1 = Some h \<or> Fclose h \<in> set ys"
    and failed: "vad_state (pvt s0) = VAD_STATE_SPEAK \<and> vad_state (pvt s) = VAD_STATE_START
          \<and> df_start_recognition_rc e \<noteq> 0 \<longrightarrow>
          set (fclose_of (?pre s0)) \<subseteq> set ys \<and> set (fclose_of (?post s0)) \<subseteq> set ys
          \<and> (call_log_enabled_for_pvt e (pvt s0) \<longrightarrow>
               Fprintf_call_log (call_log_file_handle (pvt s0)) CALL_LOG_TYPE_SESSION ''end'' []
                 \<in> set ys)"
    unfolding s1_def by blast
  have clh1: "call_log_file_handle (pvt s1) = call_log_file_handle (pvt s)"
    and path1: "call_log_path (pvt s1) = call_log_path (pvt s)"
    using lf1 clh0 path0 by (auto simp: log_fields_def split: if_splits)
  have en1: "call_log_enabled_for_pvt e (pvt s1) = call_log_enabled_for_pvt e (pvt s)"
    using clh1 by (simp add: call_log_enabled_for_pvt_def split: option.splits)
  \<comment> \<open>forwarding the frame\<close>
  from failure have not_start: "vad_state (pvt s1) \<noteq> VAD_STATE_START"
    using vad' by auto
  from forward_outside_start [OF not_start, of e data "len div 2"] obtain s4 zs where
    zs: "effects s4 = effects s1 @ zs"
    and lf4: "log_fields s4 = log_fields s1"
    and keep4: "call_log_path (pvt s1) \<noteq> [] \<longrightarrow>
                (\<forall>h. ?pre s1 = Some h \<longrightarrow> ?pre s4 = Some h)
                \<and> (\<forall>h. ?post s1 = Some h \<longrightarrow> ?post s4 = Some h)"
    and fw: "s' = (if ?terminal
                   then gdf_stop_recognition e (emit Df_stop_recognition s4) else s4)"
    unfolding s'1 by blast
  let ?s5 = "emit Df_stop_recognition s4"
  have clh4: "call_log_file_handle (pvt s4) = call_log_file_handle (pvt s)"
    using lf4 clh1 by (simp add: log_fields_def)
  have en5: "call_log_enabled_for_pvt e (pvt ?s5) = call_log_enabled_for_pvt e (pvt s)"
    using clh4 by (simp add: call_log_enabled_for_pvt_def emit_def split: option.splits)
  have clh5: "call_log_file_handle (pvt ?s5) = call_log_file_handle (pvt s)"
    using clh4 by (simp add: emit_def)
  have pv5: "pvt ?s5 = pvt s4" by (simp add: emit_def)
  have eff4: "effects s4 = effects s @ xs @ ys @ zs" by (simp add: zs ys xs)
  have eff': "effects s' = effects s @ xs @ ys @ zs
                @ (if ?terminal then Df_stop_recognition # finalize_events e ?s5 else [])"
    unfolding fw by (simp add: gdf_stop_recognition_eq emit_def eff4)
  then have since: "effects_since s s' = xs @ ys @ zs
                @ (if ?terminal then Df_stop_recognition # finalize_events e ?s5 else [])"
    by (rule effects_sinceI)
  \<comment> \<open>the speech state\<close>
  have finished: "speech_state s' = AST_SPEECH_STATE_DONE"
  proof (cases ?terminal)
    case True
    then show ?thesis unfolding fw by (simp add: gdf_stop_recognition_eq)
  next
    case False
    with failure have a: ?A by blast
    then have "vad_state (pvt s0) = VAD_STATE_SPEAK" using vad' vad1 by simp
    with a lf1 have "speech_state s1 = AST_SPEECH_STATE_DONE" by (simp add: log_fields_def)
    with lf4 have "speech_state s4 = AST_SPEECH_STATE_DONE" by (simp add: log_fields_def)
    with False show ?thesis unfolding fw by simp
  qed
  \<comment> \<open>a failed start\<close>
  have partA: "?A \<longrightarrow> set (fclose_of (?pre s)) \<subseteq> set (effects_since s s')
                 \<and> set (fclose_of (?post s)) \<subseteq> set (effects_since s s')"
  proof
    assume a: ?A
    then have "vad_state (pvt s0) = VAD_STATE_SPEAK" using vad' vad1 by simp
    with a failed pre0 post0
    have "set (fclose_of (?pre s)) \<subseteq> set ys \<and> set (fclose_of (?post s)) \<subseteq> set ys"
      by simp
    then show "set (fclose_of (?pre s)) \<subseteq> set (effects_since s s')
                 \<and> set (fclose_of (?post s)) \<subseteq> set (effects_since s s')"
      unfolding since by auto
  qed
  \<comment> \<open>a terminal status\<close>
  have partB: "vad_state (pvt s') \<noteq> VAD_STATE_START \<and> ?terminal \<longrightarrow>
            ?pre s' = None \<and> ?post s' = None
            \<and> (call_log_path (pvt s) \<noteq> [] \<longrightarrow>
                 set (fclose_of (?pre s)) \<subseteq> set (effects_since s s')
                 \<and> set (fclose_of (?post s)) \<subseteq> set (effects_since s s'))
            \<and> (call_log_enabled_for_pvt e (pvt s) \<longrightarrow> last (effects s') = ?end_line)"
  proof
    assume b: "vad_state (pvt s') \<noteq> VAD_STATE_START \<and> ?terminal"
    then have t: ?terminal by blast
    have eq: "s' = gdf_stop_recognition e ?s5" using t fw by simp
    have none: "?pre s' = None \<and> ?post s' = None"
      unfolding eq by (simp add: gdf_stop_recognition_eq)
    have last_end: "call_log_enabled_for_pvt e (pvt s) \<longrightarrow> last (effects s') = ?end_line"
    proof
      assume "call_log_enabled_for_pvt e (pvt s)"
      then have "call_log_enabled_for_pvt e (pvt ?s5)" using en5 by simp
      from finalize_events_last [OF this, of "effects s @ xs @ ys @ zs @ [Df_stop_recognition]"]
      show "last (effects s') = ?end_line"
        using t clh5 by (simp add: eff')
    qed
    have closes: "call_log_path (pvt s) \<noteq> [] \<longrightarrow>
                 set (fclose_of (?pre s)) \<subseteq> set (effects_since s s')
                 \<and> set (fclose_of (?post s)) \<subseteq> set (effects_since s s')"
    proof
      assume path: "call_log_path (pvt s) \<noteq> []"
      then have path1': "call_log_path (pvt s1) \<noteq> []" using path1 by simp
      have fin: "set (fclose_of (?pre s4)) \<subseteq> set (finalize_events e ?s5)"
        "set (fclose_of (?post s4)) \<subseteq> set (finalize_events e ?s5)"
        using finalize_events_fclose [of ?s5 e] unfolding pv5 by auto
      have "set (fclose_of (?pre s)) \<subseteq> set (effects_since s s')"
      proof (cases "?pre s")
        case None
        then show ?thesis by (simp add: fclose_of_def)
      next
        case (Some h)
        with pre0 keep_pre have "?pre s1 = Some h \<or> Fclose h \<in> set ys" by simp
        then show ?thesis
        proof
          assume "?pre s1 = Some h"
          with keep4 path1' have "?pre s4 = Some h" by blast
          with fin(1) have "Fclose h \<in> set (finalize_events e ?s5)"
            by (simp add: fclose_of_def)
          with Some t show ?thesis unfolding since by (simp add: fclose_of_def)
        next
          assume "Fclose h \<in> set ys"
          with Some show ?thesis unfolding since by (simp add: fclose_of_def)
        qed
      qed
      moreover have "set (fclose_of (?post s)) \<subseteq> set (effects_since s s')"
      proof (cases "?post s")
        case None
        then show ?thesis by (simp add: fclose_of_def)
      next
        case (Some h)
        with post0 keep_post have "?post s1 = Some h \<or> Fclose h \<in> set ys" by simp
        then show ?thesis
        proof
          assume "?post s1 = Some h"
          with keep4 path1' have "?post s4 = Some h" by blast
          with fin(2) have "Fclose h \<in> set (finalize_events e ?s5)"
            by (simp add: fclose_of_def)
          with Some t show ?thesis unfolding since by (simp add: fclose_of_def)
        next
          assume "Fclose h \<in> set ys"
          with Some show ?thesis unfolding since by (simp add: fclose_of_def)
        qed
      qed
      ultimately show "set (fclose_of (?pre s)) \<subseteq> set (effects_since s s')
                 \<and> set (fclose_of (?post s)) \<subseteq> set (effects_since s s')" by blast
    qed
    from none closes last_end
    show "?pre s' = None \<and> ?post s' = None
            \<and> (call_log_path (pvt s) \<noteq> [] \<longrightarrow>
                 set (fclose_of (?pre s)) \<subseteq> set (effects_since s s')
                 \<and> set (fclose_of (?post s)) \<subseteq> set (effects_since s s'))
            \<and> (call_log_enabled_for_pvt e (pvt s) \<longrightarrow> last (effects s') = ?end_line)"
      by blast
  qed
  \<comment> \<open>the end record\<close>
  have end_written: "call_log_enabled_for_pvt e (pvt s) \<longrightarrow> ?end_line \<in> set (effects_since s s')"
  proof
    assume en: "call_log_enabled_for_pvt e (pvt s)"
    show "?end_line \<in> set (effects_since s s')"
    proof (cases ?terminal)
      case True
      from en have "call_log_enabled_for_pvt e (pvt ?s5)" using en5 by simp
      from end_line_in_finalize_events [OF this]
      have "?end_line \<in> set (finalize_events e ?s5)" using clh5 by simp
      with True show ?thesis unfolding since by simp
    next
      case False
      with failure have a: ?A by blast
      then have "vad_state (pvt s0) = VAD_STATE_SPEAK" using vad' vad1 by simp
      with a failed en en0 clh0 have "?end_line \<in> set ys" by simp
      then show ?thesis unfolding since by simp
    qed
  qed
  from finished partA partB end_written show ?thesis by blast
qed

text \<open>
  So it is at a session with both recordings open (streams 1 and 2) and a frame on
  which \<^verbatim>\<open>df_write_audio\<close> reports an error, and at a fresh utterance and a loud frame
  on which \<^verbatim>\<open>df_start_recognition\<close> fails.
\<close>

lemma exchange_failure_finalizes_example:
  "(\<exists>s'. gdf_write write_error_env recording_session (replicate 80 150) 80 = Inr s'
        \<and> vad_state (pvt s') \<noteq> VAD_STATE_START
        \<and> speech_state s' = AST_SPEECH_STATE_DONE
        \<and> utterance_preendpointer_recording_file_handle (pvt s') = None
        \<and> utterance_postendpointer_recording_file_handle (pvt s') = None
        \<and> Fclose 1 \<in> set (effects_since recording_session s')
        \<and> Fclose 2 \<in> set (effects_since recording_session s')
        \<and> last (effects s') = Fprintf_call_log (Some 0) CALL_LOG_TYPE_SESSION ''end'' [])
   \<and> (\<exists>s'. gdf_write start_failure_env (fresh_utterance recording_config)
               (replicate 80 150) 80 = Inr s'
        \<and> vad_state (pvt (fresh_utterance recording_config)) = VAD_STATE_START
        \<and> vad_state (pvt s') = VAD_STATE_SPEAK
        \<and> speech_state s' = AST_SPEECH_STATE_DONE
        \<and> Fprintf_call_log (Some 0) CALL_LOG_TYPE_SESSION ''end'' []
             \<in> set (effects_since (fresh_utterance recording_config) s'))"
proof -
  let ?s = "recording_session"
  let ?t = "fresh_utterance recording_config"
  have "case gdf_write write_error_env ?s (replicate 80 150) 80 of
          Inl f \<Rightarrow> False | Inr s' \<Rightarrow> vad_state (pvt s') \<noteq> VAD_STATE_START"
    by code_simp
  then obtain s' where run: "gdf_write write_error_env ?s (replicate 80 150) 80 = Inr s'"
    and vad: "vad_state (pvt s') \<noteq> VAD_STATE_START"
    by (auto split: sum.splits)
  have terminal: "df_write_audio_rc write_error_env = DF_STATE_ERROR" by code_simp
  have path: "call_log_path (pvt ?s) \<noteq> []" by code_simp
  have enabled: "call_log_enabled_for_pvt write_error_env (pvt ?s)" by code_simp
  have handle: "call_log_file_handle (pvt ?s) = Some 0" by code_simp
  have pre: "fclose_of (utterance_preendpointer_recording_file_handle (pvt ?s)) = [Fclose 1]"
    by code_simp
  have post: "fclose_of (utterance_postendpointer_recording_file_handle (pvt ?s)) = [Fclose 2]"
    by code_simp
  from vad terminal have failure:
    "(vad_state (pvt ?s) = VAD_STATE_START \<and> vad_state (pvt s') = VAD_STATE_SPEAK
        \<and> df_start_recognition_rc write_error_env \<noteq> 0)
     \<or> (vad_state (pvt s') \<noteq> VAD_STATE_START
        \<and> (df_write_audio_rc write_error_env = DF_STATE_FINISHED
           \<or> df_write_audio_rc write_error_env = DF_STATE_ERROR))"
    by simp
  from exchange_failure_finalizes [OF run failure] vad terminal path enabled handle pre post
  have first: "speech_state s' = AST_SPEECH_STATE_DONE
        \<and> utterance_preendpointer_recording_file_handle (pvt s') = None
        \<and> utterance_postendpointer_recording_file_handle (pvt s') = None
        \<and> Fclose 1 \<in> set (effects_since ?s s')
        \<and> Fclose 2 \<in> set (effects_since ?s s')
        \<and> last (effects s') = Fprintf_call_log (Some 0) CALL_LOG_TYPE_SESSION ''end'' []"
    by simp
  have "case gdf_write start_failure_env ?t (replicate 80 150) 80 of
          Inl f \<Rightarrow> False | Inr t' \<Rightarrow> vad_state (pvt t') = VAD_STATE_SPEAK"
    by code_simp
  then obtain t' where run2: "gdf_write start_failure_env ?t (replicate 80 150) 80 = Inr t'"
    and speak: "vad_state (pvt t') = VAD_STATE_SPEAK"
    by (auto split: sum.splits)
  have start: "vad_state (pvt ?t) = VAD_STATE_START" by code_simp
  have rc: "df_start_recognition_rc start_failure_env \<noteq> 0" by code_simp
  have enabled2: "call_log_enabled_for_pvt start_failure_env (pvt ?t)" by code_simp
  have handle2: "call_log_file_handle (pvt ?t) = Some 0" by code_simp
  from start speak rc have failure2:
    "(vad_state (pvt ?t) = VAD_STATE_START \<and> vad_state (pvt t') = VAD_STATE_SPEAK
        \<and> df_start_recognition_rc start_failure_env \<noteq> 0)
     \<or> (vad_state (pvt t') \<noteq> VAD_STATE_START
        \<and> (df_write_audio_rc start_failure_env = DF_STATE_FINISHED
           \<or> df_write_audio_rc start_failure_env = DF_STATE_ERROR))"
    by simp
  from exchange_failure_finalizes [OF run2 failure2] enabled2 handle2
  have second: "speech_state t' = AST_SPEECH_STATE_DONE
        \<and> Fprintf_call_log (Some 0) CALL_LOG_TYPE_SESSION ''end'' []
             \<in> set (effects_since ?t t')"
    by simp
  from run vad first run2 start speak second show ?thesis by blast
qed

text \<open>
  C6 says that a failed \<^verbatim>\<open>df_start_recognition\<close> finalizes the utterance at once, with
  the recordings closed. After line 598 has run \<^verbatim>\<open>gdf_stop_recognition\<close> the function
  does not return: lines 602-613 still convert the frame, record it and send it. At a
  fresh utterance with both recordings enabled and a loud frame on which
  \<^verbatim>\<open>df_start_recognition\<close> fails: the stop records and the \<^verbatim>\<open>end\<close> record are
  written while no recording is open, then both recordings are opened (streams 1 and
  2) and written to, the frame is sent to the exchange that did not start, and the call
  returns with the speech state \<^verbatim>\<open>AST_SPEECH_STATE_DONE\<close> and both recordings open.
\<close>

theorem failed_start_leaves_recordings_open:
  "df_start_recognition_rc start_failure_env \<noteq> 0
   \<and> vad_state (pvt (fresh_utterance recording_config)) = VAD_STATE_START
   \<and> map_sum id
        (\<lambda>s'. (vad_state (pvt s'), speech_state s',
               utterance_preendpointer_recording_file_handle (pvt s'),
               utterance_postendpointer_recording_file_handle (pvt s'),
               effects_since (fresh_utterance recording_config) s'))
        (gdf_write start_failure_env (fresh_utterance recording_config) (replicate 80 150) 80)
       = Inr (VAD_STATE_SPEAK, AST_SPEECH_STATE_DONE, Some 1, Some 2,
              [Fprintf_call_log (Some 0) CALL_LOG_TYPE_ENDPOINTER ''start_of_speech'' [],
               Df_start_recognition [],
               Fprintf_call_log (Some 0) CALL_LOG_TYPE_ENDPOINTER ''pre_recording_stop'' [],
               Fprintf_call_log (Some 0) CALL_LOG_TYPE_ENDPOINTER ''post_recording_stop'' [],
               Fprintf_call_log (Some 0) CALL_LOG_TYPE_SESSION ''end'' [],
               Fopen (Log_related_filename ''/var/log/dialogflow/'' ''0000_0x1'' ''pre''
                        (Some 1) ''ul'') (Some 1),
               Fprintf_call_log (Some 0) CALL_LOG_TYPE_ENDPOINTER ''pre_recording_start''
                 [(''filename'', Filename (Log_related_filename ''/var/log/dialogflow/''
                                             ''0000_0x1'' ''pre'' (Some 1) ''ul''))],
               Fwrite (Some 1) (replicate 40 255),
               Fopen (Log_related_filename ''/var/log/dialogflow/'' ''0000_0x1'' ''post''
                        (Some 1) ''ul'') (Some 2),
               Fprintf_call_log (Some 0) CALL_LOG_TYPE_ENDPOINTER ''post_recording_start''
                 [(''filename'', Filename (Log_related_filename ''/var/log/dialogflow/''
                                             ''0000_0x1'' ''post'' (Some 1) ''ul''))],
               Fwrite (Some 2) (replicate 40 255),
               Df_write_audio (replicate 40 255)])"
  by code_simp

section \<open>Repeated opening of a recording\<close>

text \<open>
  What holds of the three flags: \<^verbatim>\<open>gdf_start\<close> leaves the two recording flags as
  they are and never clears the call log's; once the call log's flag is set,
  \<^verbatim>\<open>gdf_start\<close> opens no file; and with a non-empty call log path and both recording
  flags set, \<^verbatim>\<open>maybe_record_audio\<close> opens no file.
\<close>

lemma maybe_record_no_reopen:
  assumes "call_log_path (pvt s) \<noteq> []"
    and "utterance_preendpointer_recording_open_already_attempted (pvt s)"
    and "utterance_postendpointer_recording_open_already_attempted (pvt s)"
  shows "filter is_Fopen (effects_since s (maybe_record_audio e mulaw vad s)) = []"
  using assms
  by (simp add: maybe_record_audio_def record_preendpointed_audio_def
      record_postendpointed_audio_def effects_since_def emit_def Let_def split: option.splits)

lemma gdf_start_keeps_recording_flags:
  "utterance_preendpointer_recording_open_already_attempted (pvt (gdf_start e s))
     = utterance_preendpointer_recording_open_already_attempted (pvt s)"
  "utterance_postendpointer_recording_open_already_attempted (pvt (gdf_start e s))
     = utterance_postendpointer_recording_open_already_attempted (pvt s)"
  "call_log_open_already_attempted (pvt s)
     \<Longrightarrow> call_log_open_already_attempted (pvt (gdf_start e s))"
proof -
  have reset:
    "utterance_preendpointer_recording_open_already_attempted (pvt (gdf_start_reset e s))
       = utterance_preendpointer_recording_open_already_attempted (pvt s)"
    "utterance_postendpointer_recording_open_already_attempted (pvt (gdf_start_reset e s))
       = utterance_postendpointer_recording_open_already_attempted (pvt s)"
    "call_log_open_already_attempted (pvt s)
       \<Longrightarrow> call_log_open_already_attempted (pvt (gdf_start_reset e s))"
    by (simp_all add: gdf_start_reset_def start_call_log_def calculate_log_path_def
        calculate_log_file_basename_def log_endpointer_start_event_def gdf_log_call_event_def
        should_start_call_log_def fopen_w_def emit_def Let_def split: option.splits)
  show "utterance_preendpointer_recording_open_already_attempted (pvt (gdf_start e s))
     = utterance_preendpointer_recording_open_already_attempted (pvt s)"
    by (simp add: gdf_start_def Let_def gdf_stop_recognition_eq ast_speech_change_state_def
        emit_def reset)
  show "utterance_postendpointer_recording_open_already_attempted (pvt (gdf_start e s))
     = utterance_postendpointer_recording_open_already_attempted (pvt s)"
    by (simp add: gdf_start_def Let_def gdf_stop_recognition_eq ast_speech_change_state_def
        emit_def reset)
  show "call_log_open_already_attempted (pvt s)
     \<Longrightarrow> call_log_open_already_attempted (pvt (gdf_start e s))"
    by (simp add: gdf_start_def Let_def gdf_stop_recognition_eq ast_speech_change_state_def
        emit_def reset)
qed

lemma gdf_start_opens_call_log_once:
  assumes "call_log_open_already_attempted (pvt s)"
  shows "filter is_Fopen (effects_since s (gdf_start e s)) = []"
proof -
  have reset: "\<exists>xs. effects (gdf_start_reset e s) = effects s @ xs \<and> filter is_Fopen xs = []"
    using assms
    by (simp add: gdf_start_reset_def log_endpointer_start_event_def gdf_log_call_event_def
        should_start_call_log_def emit_def Let_def)
  then obtain xs where xs: "effects (gdf_start_reset e s) = effects s @ xs"
    and no: "filter is_Fopen xs = []" by blast
  have fin: "filter is_Fopen (finalize_events e t) = []" for t
    by (simp add: finalize_events_def fclose_of_def log_line_def split: option.splits)
  show ?thesis
    by (simp add: gdf_start_def Let_def gdf_stop_recognition_eq ast_speech_change_state_def
        emit_def effects_since_def xs no fin)
qed

text \<open>
  C10 says that after the first attempt to open a recording no further file of that
  kind is opened. With the recording before the endpointer enabled and the call log
  disabled, the call log path is empty, \<^verbatim>\<open>maybe_record_audio\<close> does not read the flag
  (lines 447-453), and every frame outside \<^verbatim>\<open>VAD_STATE_START\<close> opens the file again:
  after the first of three loud frames the flag is set and one file has been opened,
  after the third three files have been opened and the session holds the last stream.
\<close>

theorem recording_reopened_on_every_frame:
  "map_sum id
     (\<lambda>s'. (utterance_preendpointer_recording_open_already_attempted (pvt s'),
            filter is_Fopen (effects s')))
     (gdf_write_all
        (replicate 1 (quiet_env recording_without_call_log_config, replicate 80 150, 80))
        (fresh_utterance recording_without_call_log_config))
   = Inr (True, [Fopen (Log_related_filename [] [] ''pre'' (Some 1) ''ul'') (Some 0)])
   \<and> map_sum id
     (\<lambda>s'. (utterance_preendpointer_recording_open_already_attempted (pvt s'),
            utterance_preendpointer_recording_file_handle (pvt s'),
            filter is_Fopen (effects s')))
     (gdf_write_all
        (replicate 3 (quiet_env recording_without_call_log_config, replicate 80 150, 80))
        (fresh_utterance recording_without_call_log_config))
   = Inr (True, Some 2,
          [Fopen (Log_related_filename [] [] ''pre'' (Some 1) ''ul'') (Some 0),
           Fopen (Log_related_filename [] [] ''pre'' (Some 1) ''ul'') (Some 1),
           Fopen (Log_related_filename [] [] ''pre'' (Some 1) ''ul'') (Some 2)])"
  by code_simp

end
